theory Spec2Isabelle
  imports Main
begin

section \<open>Strings\<close>

text \<open>
  Python strings are modelled as \<^typ>\<open>string\<close>, each character read as an ASCII code
  point. \<open>str.lower\<close>, \<open>str.strip\<close> and \<open>re.IGNORECASE\<close> are modelled on the ASCII
  range, where they only touch the letters \<open>A\<close> to \<open>Z\<close> and the ASCII white space.
\<close>

definition is_ascii :: "char \<Rightarrow> bool" where
  "is_ascii c = ((of_char c :: nat) < 128)"

definition lower_char :: "char \<Rightarrow> char" where
  "lower_char c =
     (let n = (of_char c :: nat) in if 65 \<le> n \<and> n \<le> 90 then char_of (n + 32) else c)"

definition py_lower :: "string \<Rightarrow> string" where
  "py_lower s = map lower_char s"

text \<open>The characters \<open>str.strip()\<close> removes: tab to carriage return, the four
  separators \<open>0x1c\<close> to \<open>0x1f\<close>, and the space.\<close>

definition is_space :: "char \<Rightarrow> bool" where
  "is_space c =
     (let n = (of_char c :: nat) in (9 \<le> n \<and> n \<le> 13) \<or> (28 \<le> n \<and> n \<le> 32))"

definition py_strip :: "string \<Rightarrow> string" where
  "py_strip s = rev (dropWhile is_space (rev (dropWhile is_space s)))"

definition py_lstrip :: "char \<Rightarrow> string \<Rightarrow> string" where
  "py_lstrip c s = dropWhile (\<lambda>d. d = c) s"

definition startswith :: "string \<Rightarrow> string \<Rightarrow> bool" where
  "startswith s p = (take (length p) s = p)"

text \<open>\<open>sub in s\<close>: the substring test.\<close>

primrec py_in :: "string \<Rightarrow> string \<Rightarrow> bool" where
  "py_in sub [] = (sub = [])"
| "py_in sub (c # cs) = (take (length sub) (c # cs) = sub \<or> py_in sub cs)"

section \<open>Constants of the module\<close>

definition TWITTER_IMAGE_DOMAIN :: string where
  "TWITTER_IMAGE_DOMAIN = ''pbs.twimg.com''"

definition TWITTER_VIDEO_DOMAIN :: string where
  "TWITTER_VIDEO_DOMAIN = ''video.twimg.com''"

definition WITHHELD_ERROR_CODE :: string where
  "WITHHELD_ERROR_CODE = ''withheld''"

definition ERROR_MSG_WITHHELD :: string where
  "ERROR_MSG_WITHHELD =
     ''Account withheld. Alternative version available at: https://www.patreon.com/exyezed''"

definition ERROR_MSG_AUTH_FAILED :: string where
  "ERROR_MSG_AUTH_FAILED = ''Authentication failed. Verify your auth token is valid.''"

definition ERROR_MSG_ACCOUNT_NOT_FOUND :: string where
  "ERROR_MSG_ACCOUNT_NOT_FOUND =
     ''Failed to fetch account information. Check the username and auth token.''"

section \<open>The username resolver\<close>

text \<open>
  The two URL patterns of \<open>_parse_username\<close> are matched with \<open>re.match\<close> under
  \<open>re.IGNORECASE\<close>:
  \<^verbatim>\<open>(?:https?://)?(?:www\.)?(?:x\.com|twitter\.com)/([^/?#]+)\<close> and the same with \<open>/@\<close>
  before the group. The matcher below is the backtracking search of the regular
  expression: every optional group lists the rest of the input after taking the group
  first and after skipping it second, the alternation lists its branches in order, and
  the first complete match gives the captured group.
\<close>

definition ci_prefix :: "string \<Rightarrow> string \<Rightarrow> string list" where
  "ci_prefix lit s =
     (if length lit \<le> length s \<and> py_lower (take (length lit) s) = py_lower lit
      then [drop (length lit) s] else [])"

definition opt_scheme :: "string \<Rightarrow> string list" where
  "opt_scheme s = ci_prefix ''https://'' s @ ci_prefix ''http://'' s @ [s]"

definition opt_www :: "string \<Rightarrow> string list" where
  "opt_www s = ci_prefix ''www.'' s @ [s]"

definition alt_domain :: "string \<Rightarrow> string list" where
  "alt_domain s = ci_prefix ''x.com'' s @ ci_prefix ''twitter.com'' s"

definition is_delim :: "char \<Rightarrow> bool" where
  "is_delim c = (c = CHR ''/'' \<or> c = CHR ''?'' \<or> c = CHR ''#'')"

definition segment :: "string \<Rightarrow> string list" where
  "segment s = (let g = takeWhile (\<lambda>c. \<not> is_delim c) s in if g = [] then [] else [g])"

definition url_prefix_rests :: "string \<Rightarrow> string list" where
  "url_prefix_rests s = List.bind (opt_scheme s) (\<lambda>r1. List.bind (opt_www r1) alt_domain)"

definition match_url :: "string \<Rightarrow> string \<Rightarrow> string option" where
  "match_url sep s =
     (case List.bind (url_prefix_rests s) (\<lambda>r. List.bind (ci_prefix sep r) segment) of
        [] \<Rightarrow> None
      | g # _ \<Rightarrow> Some g)"

definition parse_username :: "string \<Rightarrow> string" where
  "parse_username username_input =
     (if startswith username_input ''id:'' then username_input
      else
        let stripped = py_strip username_input in
        (case match_url ''/'' stripped of
           Some username \<Rightarrow> py_lower (py_lstrip CHR ''@'' username)
         | None \<Rightarrow>
            (case match_url ''/@'' stripped of
               Some username \<Rightarrow> py_lower (py_lstrip CHR ''@'' username)
             | None \<Rightarrow> py_lower (py_lstrip CHR ''@'' stripped))))"

section \<open>Stream items and the media filter\<close>

text \<open>
  A date is either a \<open>datetime\<close> object, kept as its six fields, or any other value,
  kept as the string it is.
\<close>

record datetime =
  dt_year :: nat
  dt_month :: nat
  dt_day :: nat
  dt_hour :: nat
  dt_minute :: nat
  dt_second :: nat

datatype date_value = DateTime datetime | DateRaw string

text \<open>The user dictionary \<open>_build_account_info\<close> reads: an absent key is \<open>None\<close>.\<close>

record user_data =
  ud_name :: "string option"
  ud_nick :: "string option"
  ud_date :: "date_value option"
  ud_followers_count :: "int option"
  ud_friends_count :: "int option"
  ud_profile_image :: "string option"
  ud_statuses_count :: "int option"

text \<open>The tweet metadata dictionary, with the keys the module reads.\<close>

record tweet_data =
  td_date :: "date_value option"
  td_tweet_id :: "int option"
  td_type :: "string option"
  td_retweet_id :: "int option"
  td_user :: "user_data option"

text \<open>What the extractor's iterator yields: a tuple of at least three components, of
  which the module reads the second and the third, or anything else.\<close>

datatype item = Tuple3 string tweet_data | OtherItem

definition is_twitter_media :: "string \<Rightarrow> bool" where
  "is_twitter_media media_url =
     (py_in TWITTER_IMAGE_DOMAIN media_url \<or> py_in TWITTER_VIDEO_DOMAIN media_url)"

definition should_include_media :: "string \<Rightarrow> tweet_data \<Rightarrow> string \<Rightarrow> bool" where
  "should_include_media media_url tweet media_type =
     (if media_type = ''all'' then True
      else
        let tweet_type = td_type tweet in
        if media_type = ''image'' then
          py_in TWITTER_IMAGE_DOMAIN media_url \<and> tweet_type = Some ''photo''
        else if media_type = ''video'' then
          py_in TWITTER_VIDEO_DOMAIN media_url \<and> tweet_type = Some ''video''
        else if media_type = ''gif'' then
          py_in TWITTER_VIDEO_DOMAIN media_url \<and> tweet_type = Some ''animated_gif''
        else False)"

section \<open>Exceptions and the error classifier\<close>

text \<open>
  An exception is kept as what the module inspects: whether it is a \<open>ValueError\<close>, its
  \<open>str()\<close>, and its \<open>response\<close> attribute. \<open>exn_response = None\<close> means the exception has
  no such attribute; \<open>NoText tn\<close> is a response object of type \<open>tn\<close> without a \<open>text\<close>
  attribute (\<open>None\<close>, of type \<open>NoneType\<close>, is one); \<open>WithText t\<close> is a response whose text
  prints as \<open>t\<close>.
\<close>

datatype exn_class = ValueError | AttributeError | OtherException

datatype response = NoText string | WithText string

record exn =
  exn_class :: exn_class
  exn_str :: string
  exn_response :: "response option"

definition value_error :: "string \<Rightarrow> exn" where
  "value_error m = \<lparr>exn_class = ValueError, exn_str = m, exn_response = None\<rparr>"

definition attribute_error :: "string \<Rightarrow> exn" where
  "attribute_error tn =
     \<lparr>exn_class = AttributeError,
      exn_str = [CHR 0x27] @ tn @ [CHR 0x27] @ '' object has no attribute '' @
                [CHR 0x27] @ ''text'' @ [CHR 0x27],
      exn_response = None\<rparr>"

text \<open>\<open>Inl\<close> is an exception raised by the classifier itself, \<open>Inr\<close> its answer.\<close>

definition is_withheld_error :: "exn \<Rightarrow> exn + bool" where
  "is_withheld_error error =
     (let error_msg = py_lower (exn_str error);
          is_withheld_value_error =
            (exn_class error = ValueError \<and> exn_str error = WITHHELD_ERROR_CODE);
          has_withheld_in_message = py_in WITHHELD_ERROR_CODE error_msg
      in case exn_response error of
           None \<Rightarrow> Inr (is_withheld_value_error \<or> has_withheld_in_message)
         | Some (NoText tn) \<Rightarrow> Inl (attribute_error tn)
         | Some (WithText t) \<Rightarrow>
             Inr (is_withheld_value_error \<or> has_withheld_in_message \<or>
                  py_in WITHHELD_ERROR_CODE (py_lower t)))"

section \<open>The platform extractor\<close>

text \<open>
  The extractor classes come from the scraping library and are taken as a parameter:
  a platform gives, for each class, the URL pattern (as the test \<open>re.match\<close> makes) and
  the behaviour of the instance built for a URL and a configuration.
\<close>

datatype extractor_class =
  TwitterMediaExtractor | TwitterTweetsExtractor | TwitterRepliesExtractor
  | TwitterTimelineExtractor | TwitterSearchExtractor

text \<open>\<open>config_dict\<close>: the cookie, the retweet flag, and \<open>count\<close> when it is set.\<close>

record config =
  cfg_auth_token :: string
  cfg_retweets :: bool
  cfg_count :: "int option"

text \<open>The raw account record of a user lookup; the module reads its \<open>legacy\<close> object.\<close>

record legacy =
  lg_withheld_scope :: "string option"

record raw_user =
  ru_rest_id :: string
  ru_legacy :: "legacy option"

text \<open>
  One extractor instance: whether \<open>initialize()\<close> and the construction of the API object
  raise, the two user lookups of that API object, \<open>_transform_user\<close>, the items its
  iterator yields, how the iteration ends (\<open>None\<close>: exhaustion, \<open>Some e\<close>: it raises
  \<open>e\<close>), and its \<open>_cursor\<close> attribute after a given number of \<open>next()\<close> calls
  (\<open>None\<close>: no attribute, or \<open>None\<close>). A generator that has ended or raised is
  exhausted: every later \<open>next()\<close> is \<open>StopIteration\<close>.
\<close>

record extractor =
  ex_initialize :: "exn option"
  ex_api :: "exn option"
  ex_user_by_screen_name :: "string \<Rightarrow> exn + raw_user"
  ex_user_by_rest_id :: "string \<Rightarrow> exn + raw_user"
  ex_transform_user :: "raw_user \<Rightarrow> exn + user_data"
  ex_items :: "item list"
  ex_end :: "exn option"
  ex_cursor :: "nat \<Rightarrow> string option"

text \<open>A platform also carries the two library functions the builders use: the clock
  \<open>datetime.now()\<close>, read as one value during a call, and \<open>strftime\<close> with the format
  \<open>%Y-%m-%d %H:%M:%S\<close>.\<close>

record platform =
  pf_pattern :: "extractor_class \<Rightarrow> string \<Rightarrow> bool"
  pf_extractor :: "extractor_class \<Rightarrow> string \<Rightarrow> config \<Rightarrow> extractor"
  pf_now :: datetime
  pf_strftime :: "datetime \<Rightarrow> string"

text \<open>The iterator over an extractor: the items left, the end, and the calls made.\<close>

datatype iterator = Iterator (rest: "item list") (fin: "exn option") (calls: nat)

datatype next_result = Yielded item | StopIteration | Raised exn

fun py_next :: "iterator \<Rightarrow> next_result \<times> iterator" where
  "py_next (Iterator (x # xs) e n) = (Yielded x, Iterator xs e (Suc n))"
| "py_next (Iterator [] None n) = (StopIteration, Iterator [] None (Suc n))"
| "py_next (Iterator [] (Some e) n) = (Raised e, Iterator [] None (Suc n))"

definition py_iter :: "extractor \<Rightarrow> iterator" where
  "py_iter ex = Iterator (ex_items ex) (ex_end ex) 0"

definition truthy :: "string option \<Rightarrow> bool" where
  "truthy v = (case v of None \<Rightarrow> False | Some s \<Rightarrow> s \<noteq> [])"

section \<open>The output structure\<close>

record account_info =
  ai_name :: string
  ai_nick :: string
  ai_date :: string
  ai_followers_count :: int
  ai_friends_count :: int
  ai_profile_image :: string
  ai_statuses_count :: int

record timeline_entry =
  te_url :: string
  te_date :: string
  te_tweet_id :: int
  te_type :: "string option"
  te_retweet_id :: "int option"
  te_is_retweet :: bool

record pagination_metadata =
  pm_new_entries :: nat
  pm_page :: int
  pm_batch_size :: int
  pm_has_more :: bool
  pm_cursor :: "string option"

record timeline_output =
  to_account_info :: account_info
  to_total_urls :: nat
  to_timeline :: "timeline_entry list"
  to_metadata :: pagination_metadata

record date_filter =
  df_start :: string
  df_end :: string
  df_method :: string

record search_metadata =
  sm_new_entries :: nat
  sm_method :: string
  sm_date_range :: string

record search_output =
  so_account_info :: account_info
  so_total_urls :: nat
  so_timeline :: "timeline_entry list"
  so_search_query :: string
  so_date_filter :: date_filter
  so_metadata :: search_metadata

text \<open>What an entry point returns: the error dictionary or one of the two bodies.\<close>

datatype returned = ErrorBody string | TimelineBody timeline_output | SearchBody search_output

section \<open>The builders\<close>

definition format_datetime :: "platform \<Rightarrow> date_value \<Rightarrow> string" where
  "format_datetime pf dt = (case dt of DateTime d \<Rightarrow> pf_strftime pf d | DateRaw s \<Rightarrow> s)"

definition get_default :: "'a option \<Rightarrow> 'a \<Rightarrow> 'a" where
  "get_default v d = (case v of None \<Rightarrow> d | Some x \<Rightarrow> x)"

definition build_timeline_entry :: "platform \<Rightarrow> string \<Rightarrow> tweet_data \<Rightarrow> timeline_entry" where
  "build_timeline_entry pf media_url tweet =
     (let tweet_date = get_default (td_date tweet) (DateTime (pf_now pf));
          retweeted = (case td_retweet_id tweet of None \<Rightarrow> False | Some r \<Rightarrow> r \<noteq> 0)
      in \<lparr>te_url = media_url,
          te_date = format_datetime pf tweet_date,
          te_tweet_id = get_default (td_tweet_id tweet) 0,
          te_type = td_type tweet,
          te_retweet_id = (if retweeted then td_retweet_id tweet else None),
          te_is_retweet = retweeted\<rparr>)"

definition build_account_info :: "platform \<Rightarrow> user_data \<Rightarrow> account_info" where
  "build_account_info pf user =
     \<lparr>ai_name = get_default (ud_name user) '''',
      ai_nick = get_default (ud_nick user) '''',
      ai_date = format_datetime pf (get_default (ud_date user) (DateRaw '''')),
      ai_followers_count = get_default (ud_followers_count user) 0,
      ai_friends_count = get_default (ud_friends_count user) 0,
      ai_profile_image = get_default (ud_profile_image user) '''',
      ai_statuses_count = get_default (ud_statuses_count user) 0\<rparr>"

section \<open>The engine boundary\<close>

text \<open>
  The \<open>except Exception\<close> block that ends both entry points. \<open>Inl\<close> is an exception that
  leaves the call, \<open>Inr\<close> the dictionary it returns.
\<close>

definition handle_failure :: "exn \<Rightarrow> exn + returned" where
  "handle_failure e =
     (case is_withheld_error e of
        Inl e' \<Rightarrow> Inl e'
      | Inr withheld \<Rightarrow>
          if withheld then Inr (ErrorBody ERROR_MSG_WITHHELD)
          else
            let error_str = exn_str e in
            if error_str = ''None'' then Inr (ErrorBody ERROR_MSG_AUTH_FAILED)
            else Inr (ErrorBody error_str))"

section \<open>Account lookup\<close>

definition has_withheld_scope :: "raw_user \<Rightarrow> bool" where
  "has_withheld_scope user =
     (case ru_legacy user of None \<Rightarrow> False | Some l \<Rightarrow> truthy (lg_withheld_scope l))"

text \<open>The \<open>except\<close> block around the lookup: a withheld failure is raised again as the
  withheld \<open>ValueError\<close>, any other as it is.\<close>

definition lookup_except :: "exn \<Rightarrow> exn + raw_user" where
  "lookup_except e =
     (case is_withheld_error e of
        Inl e' \<Rightarrow> Inl e'
      | Inr withheld \<Rightarrow> if withheld then Inl (value_error WITHHELD_ERROR_CODE) else Inl e)"

definition resolve_user :: "exn + raw_user \<Rightarrow> exn + raw_user" where
  "resolve_user looked_up =
     (case looked_up of
        Inl e \<Rightarrow> lookup_except e
      | Inr user \<Rightarrow>
          if has_withheld_scope user then lookup_except (value_error WITHHELD_ERROR_CODE)
          else Inr user)"

definition timeline_lookup :: "extractor \<Rightarrow> string \<Rightarrow> exn + raw_user" where
  "timeline_lookup ex username =
     (if startswith username ''id:'' then ex_user_by_rest_id ex (drop 3 username)
      else ex_user_by_screen_name ex username)"

section \<open>Timeline pagination\<close>

text \<open>The skip loop: \<open>n\<close> calls of \<open>next\<close>, ended early by \<open>StopIteration\<close>.\<close>

fun skip_loop :: "nat \<Rightarrow> iterator \<Rightarrow> nat \<Rightarrow> exn + iterator \<times> nat" where
  "skip_loop 0 it skipped = Inr (it, skipped)"
| "skip_loop (Suc n) it skipped =
     (case py_next it of
        (Yielded _, it') \<Rightarrow> skip_loop n it' (Suc skipped)
      | (StopIteration, it') \<Rightarrow> Inr (it', skipped)
      | (Raised e, _) \<Rightarrow> Inl e)"

definition skip_phase :: "extractor \<Rightarrow> int \<Rightarrow> int \<Rightarrow> exn + iterator \<times> nat" where
  "skip_phase ex batch_size page =
     (let iterator = py_iter ex in
      if batch_size > 0 \<and> page > 0 then
        let items_to_skip = page * batch_size in
        if truthy (ex_cursor ex 0) then Inr (iterator, 0)
        else skip_loop (nat items_to_skip) iterator 0
      else Inr (iterator, 0))"

text \<open>The state of the fetch loop: \<open>structured_output\<close>, the new entries, the counter.\<close>

record fetch_state =
  fs_account_info :: "account_info option"
  fs_total_urls :: nat
  fs_new_timeline_entries :: "timeline_entry list"
  fs_items_fetched :: nat

definition initial_state :: fetch_state where
  "initial_state =
     \<lparr>fs_account_info = None, fs_total_urls = 0, fs_new_timeline_entries = [],
      fs_items_fetched = 0\<rparr>"

text \<open>\<open>items_to_fetch\<close>: \<open>None\<close> is \<open>float('inf')\<close>.\<close>

definition items_to_fetch :: "int \<Rightarrow> int option" where
  "items_to_fetch batch_size = (if batch_size > 0 then Some batch_size else None)"

definition below :: "nat \<Rightarrow> int option \<Rightarrow> bool" where
  "below n lim = (case lim of None \<Rightarrow> True | Some l \<Rightarrow> int n < l)"

definition process_item :: "platform \<Rightarrow> string \<Rightarrow> item \<Rightarrow> fetch_state \<Rightarrow> fetch_state" where
  "process_item pf media_type it st =
     (case it of
        OtherItem \<Rightarrow> st
      | Tuple3 media_url tweet \<Rightarrow>
          let st1 =
                (case td_user tweet of
                   Some user \<Rightarrow>
                     if fs_account_info st = None
                     then st\<lparr>fs_account_info := Some (build_account_info pf user)\<rparr>
                     else st
                 | None \<Rightarrow> st)
          in if is_twitter_media media_url then
               let timeline_entry = build_timeline_entry pf media_url tweet in
               if should_include_media media_url tweet media_type then
                 st1\<lparr>fs_new_timeline_entries := fs_new_timeline_entries st1 @ [timeline_entry],
                     fs_total_urls := fs_total_urls st1 + 1\<rparr>
               else st1
             else st1)"

function fetch_loop ::
  "platform \<Rightarrow> string \<Rightarrow> int option \<Rightarrow> iterator \<Rightarrow> fetch_state \<Rightarrow> exn + iterator \<times> fetch_state"
where
  "fetch_loop pf media_type lim it st =
     (if below (fs_items_fetched st) lim then
        (case py_next it of
           (Yielded x, it') \<Rightarrow>
             fetch_loop pf media_type lim it'
               (process_item pf media_type x (st\<lparr>fs_items_fetched := fs_items_fetched st + 1\<rparr>))
         | (StopIteration, it') \<Rightarrow> Inr (it', st)
         | (Raised e, _) \<Rightarrow> Inl e)
      else Inr (it, st))"
  by pat_completeness auto
termination
  apply (relation "measure (\<lambda>(pf, media_type, lim, it, st). length (rest it))")
   apply simp
  subgoal for pf media_type lim it st p x it'
    by (cases it rule: py_next.cases) auto
  done

declare fetch_loop.simps [simp del]

definition extractor_class_of :: "string \<Rightarrow> extractor_class" where
  "extractor_class_of timeline_type =
     (if timeline_type = ''media'' then TwitterMediaExtractor
      else if timeline_type = ''tweets'' then TwitterTweetsExtractor
      else if timeline_type = ''with_replies'' then TwitterRepliesExtractor
      else TwitterTimelineExtractor)"

definition timeline_url :: "string \<Rightarrow> string \<Rightarrow> string" where
  "timeline_url username timeline_type = ''https://x.com/'' @ username @ ''/'' @ timeline_type"

definition timeline_config :: "string \<Rightarrow> int \<Rightarrow> bool \<Rightarrow> config" where
  "timeline_config auth_token batch_size retweets =
     \<lparr>cfg_auth_token = auth_token, cfg_retweets = retweets,
      cfg_count = (if batch_size > 0 then Some batch_size else None)\<rparr>"

text \<open>The \<open>try\<close> block of \<open>get_metadata\<close>: \<open>Inl\<close> is the exception it raises.\<close>

definition get_metadata_body ::
  "platform \<Rightarrow> extractor \<Rightarrow> string \<Rightarrow> int \<Rightarrow> int \<Rightarrow> string \<Rightarrow> exn + timeline_output"
where
  "get_metadata_body pf ex username batch_size page media_type =
     (case ex_initialize ex of Some e \<Rightarrow> Inl e | None \<Rightarrow>
     (case ex_api ex of Some e \<Rightarrow> Inl e | None \<Rightarrow>
     (case resolve_user (timeline_lookup ex username) of Inl e \<Rightarrow> Inl e | Inr user \<Rightarrow>
     (case skip_phase ex batch_size page of Inl e \<Rightarrow> Inl e | Inr (iterator, skipped) \<Rightarrow>
     (case fetch_loop pf media_type (items_to_fetch batch_size) iterator initial_state of
        Inl e \<Rightarrow> Inl e
      | Inr (iterator', st) \<Rightarrow>
          (let cursor = ex_cursor ex (calls iterator');
               cursor_info = (if truthy cursor then cursor else None);
               metadata =
                 \<lparr>pm_new_entries = length (fs_new_timeline_entries st),
                  pm_page = page,
                  pm_batch_size = batch_size,
                  pm_has_more = (batch_size > 0 \<and> int (fs_items_fetched st) = batch_size),
                  pm_cursor = cursor_info\<rparr>
           in (case fs_account_info st of
                 None \<Rightarrow> Inl (value_error ERROR_MSG_ACCOUNT_NOT_FOUND)
               | Some account \<Rightarrow>
                   Inr \<lparr>to_account_info = account,
                        to_total_urls = fs_total_urls st,
                        to_timeline = fs_new_timeline_entries st,
                        to_metadata = metadata\<rparr>)))))))"

definition get_metadata ::
  "platform \<Rightarrow> string \<Rightarrow> string \<Rightarrow> string \<Rightarrow> int \<Rightarrow> int \<Rightarrow> string \<Rightarrow> bool \<Rightarrow> exn + returned"
where
  "get_metadata pf username_input auth_token timeline_type batch_size page media_type retweets =
     (let username = parse_username username_input;
          url = timeline_url username timeline_type;
          cls = extractor_class_of timeline_type
      in if \<not> pf_pattern pf cls url then
           Inl (value_error (''Invalid URL for '' @ timeline_type @ '': '' @ url))
         else
           let ex = pf_extractor pf cls url (timeline_config auth_token batch_size retweets)
           in case get_metadata_body pf ex username batch_size page media_type of
                Inl e \<Rightarrow> handle_failure e
              | Inr body \<Rightarrow> Inr (TimelineBody body))"

section \<open>Date-range search\<close>

definition search_query :: "string \<Rightarrow> string \<Rightarrow> string \<Rightarrow> string \<Rightarrow> string" where
  "search_query username date_start date_end media_filter =
     (let query = ''from:'' @ username @ '' since:'' @ date_start @ '' until:'' @ date_end
      in if media_filter \<noteq> [] then query @ '' '' @ media_filter else query)"

definition search_url :: "string \<Rightarrow> string" where
  "search_url query = ''https://x.com/search?q='' @ query"

definition search_config :: "string \<Rightarrow> config" where
  "search_config auth_token =
     \<lparr>cfg_auth_token = auth_token, cfg_retweets = False, cfg_count = None\<rparr>"

text \<open>The search loop runs to the end of the stream; an exception of the iterator is
  reported as a warning and ends the loop with what was collected.\<close>

function search_loop ::
  "platform \<Rightarrow> iterator \<Rightarrow> timeline_entry list \<times> nat \<Rightarrow> timeline_entry list \<times> nat"
where
  "search_loop pf it acc =
     (case py_next it of
        (Yielded x, it') \<Rightarrow>
          search_loop pf it'
            (case x of
               Tuple3 media_url tweet \<Rightarrow>
                 if is_twitter_media media_url
                 then (fst acc @ [build_timeline_entry pf media_url tweet], snd acc + 1)
                 else acc
             | OtherItem \<Rightarrow> acc)
      | (StopIteration, _) \<Rightarrow> acc
      | (Raised e, _) \<Rightarrow> acc)"
  by pat_completeness auto
termination
  apply (relation "measure (\<lambda>(pf, it, acc). length (rest it))")
   apply simp
  subgoal for pf it acc p x it'
    by (cases it rule: py_next.cases) auto
  done

declare search_loop.simps [simp del]

text \<open>The \<open>try\<close> block of \<open>get_metadata_by_date\<close>. Writing \<open>output_file\<close> changes nothing
  of the returned value, and its failure is caught, so the write is left out.\<close>

definition get_metadata_by_date_body ::
  "platform \<Rightarrow> extractor \<Rightarrow> string \<Rightarrow> string \<Rightarrow> string \<Rightarrow> string \<Rightarrow> exn + search_output"
where
  "get_metadata_by_date_body pf ex username query date_start date_end =
     (case ex_initialize ex of Some e \<Rightarrow> Inl e | None \<Rightarrow>
     (case ex_api ex of Some e \<Rightarrow> Inl e | None \<Rightarrow>
     (case resolve_user (ex_user_by_screen_name ex username) of Inl e \<Rightarrow> Inl e | Inr user \<Rightarrow>
     (case ex_transform_user ex user of Inl e \<Rightarrow> Inl e | Inr user_data \<Rightarrow>
        (let collected = search_loop pf (py_iter ex) ([], 0);
             new_timeline_entries = fst collected;
             total_urls = snd collected
         in Inr \<lparr>so_account_info = build_account_info pf user_data,
                 so_total_urls = total_urls,
                 so_timeline = new_timeline_entries,
                 so_search_query = query,
                 so_date_filter =
                   \<lparr>df_start = date_start, df_end = date_end, df_method = ''search_api''\<rparr>,
                 so_metadata =
                   \<lparr>sm_new_entries = length new_timeline_entries,
                    sm_method = ''search_api'',
                    sm_date_range = date_start @ '' to '' @ date_end\<rparr>\<rparr>)))))"

definition get_metadata_by_date ::
  "platform \<Rightarrow> string \<Rightarrow> string \<Rightarrow> string \<Rightarrow> string \<Rightarrow> string \<Rightarrow> exn + returned"
where
  "get_metadata_by_date pf username_input auth_token date_start date_end media_filter =
     (let username = parse_username username_input;
          query = search_query username date_start date_end media_filter;
          url = search_url query
      in if \<not> pf_pattern pf TwitterSearchExtractor url then
           Inl (value_error (''Invalid search URL: '' @ url))
         else
           let ex = pf_extractor pf TwitterSearchExtractor url (search_config auth_token)
           in case get_metadata_by_date_body pf ex username query date_start date_end of
                Inl e \<Rightarrow> handle_failure e
              | Inr body \<Rightarrow> Inr (SearchBody body))"

section \<open>The extractor an entry point builds\<close>

text \<open>Names for the URL test and the extractor instance inside the two entry points,
  so that statements about a call can speak of them.\<close>

definition timeline_url_ok :: "platform \<Rightarrow> string \<Rightarrow> string \<Rightarrow> bool" where
  "timeline_url_ok pf username_input timeline_type =
     pf_pattern pf (extractor_class_of timeline_type)
       (timeline_url (parse_username username_input) timeline_type)"

definition timeline_extractor ::
  "platform \<Rightarrow> string \<Rightarrow> string \<Rightarrow> string \<Rightarrow> int \<Rightarrow> bool \<Rightarrow> extractor" where
  "timeline_extractor pf username_input auth_token timeline_type batch_size retweets =
     pf_extractor pf (extractor_class_of timeline_type)
       (timeline_url (parse_username username_input) timeline_type)
       (timeline_config auth_token batch_size retweets)"

definition search_url_of :: "string \<Rightarrow> string \<Rightarrow> string \<Rightarrow> string \<Rightarrow> string" where
  "search_url_of username_input date_start date_end media_filter =
     search_url (search_query (parse_username username_input) date_start date_end media_filter)"

definition search_url_ok :: "platform \<Rightarrow> string \<Rightarrow> string \<Rightarrow> string \<Rightarrow> string \<Rightarrow> bool" where
  "search_url_ok pf username_input date_start date_end media_filter =
     pf_pattern pf TwitterSearchExtractor
       (search_url_of username_input date_start date_end media_filter)"

definition search_extractor ::
  "platform \<Rightarrow> string \<Rightarrow> string \<Rightarrow> string \<Rightarrow> string \<Rightarrow> string \<Rightarrow> extractor" where
  "search_extractor pf username_input auth_token date_start date_end media_filter =
     pf_extractor pf TwitterSearchExtractor
       (search_url_of username_input date_start date_end media_filter)
       (search_config auth_token)"

section \<open>Notions used in the statements\<close>

text \<open>An item that reaches the timeline of \<^verbatim>\<open>get_metadata\<close>: a tuple whose URL is on a
  media domain and which the media filter includes; the number of such items in a list;
  an item that reaches the timeline of the search, which looks at the domain only; the
  items the fetch loop takes from an iterator under a batch size; and one round of the
  fetch loop.\<close>

definition passes :: "string \<Rightarrow> item \<Rightarrow> bool" where
  "passes media_type x =
     (case x of
        Tuple3 media_url tweet \<Rightarrow>
          is_twitter_media media_url \<and> should_include_media media_url tweet media_type
      | OtherItem \<Rightarrow> False)"

definition passing_count :: "string \<Rightarrow> item list \<Rightarrow> nat" where
  "passing_count media_type xs = length (filter (passes media_type) xs)"

definition is_media_item :: "item \<Rightarrow> bool" where
  "is_media_item x =
     (case x of Tuple3 media_url tweet \<Rightarrow> is_twitter_media media_url | OtherItem \<Rightarrow> False)"

definition fetched_items :: "int \<Rightarrow> iterator \<Rightarrow> item list" where
  "fetched_items batch_size it =
     (if batch_size > 0 then take (nat batch_size) (rest it) else rest it)"

definition fetch_step :: "platform \<Rightarrow> string \<Rightarrow> fetch_state \<Rightarrow> item \<Rightarrow> fetch_state" where
  "fetch_step pf media_type st x =
     process_item pf media_type x (st\<lparr>fs_items_fetched := fs_items_fetched st + 1\<rparr>)"


text \<open>An exception on which reading \<^verbatim>\<open>error.response.text\<close> does not fail: it has no
  \<^verbatim>\<open>response\<close> attribute, or its response has a text.\<close>

definition response_has_text :: "exn \<Rightarrow> bool" where
  "response_has_text e = (case exn_response e of Some (NoText tn) \<Rightarrow> False | _ \<Rightarrow> True)"

definition total_urls_of :: "exn + returned \<Rightarrow> nat option" where
  "total_urls_of r =
     (case r of
        Inr (TimelineBody body) \<Rightarrow> Some (to_total_urls body)
      | Inr (SearchBody body) \<Rightarrow> Some (so_total_urls body)
      | _ \<Rightarrow> None)"


text \<open>A handle, for the resolver: a non-empty string of ASCII characters other than
  white space and the delimiters \<^verbatim>\<open>/\<close>, \<^verbatim>\<open>?\<close> and \<^verbatim>\<open>#\<close>, which does not begin with
  \<^verbatim>\<open>@\<close> and is not of the \<^verbatim>\<open>id:\<close> form in any case. What may follow the handle in a
  profile URL: nothing, or an ASCII string that begins with a delimiter and does not end
  in white space.\<close>

definition handle_char :: "char \<Rightarrow> bool" where
  "handle_char c = (is_ascii c \<and> \<not> is_space c \<and> \<not> is_delim c)"

definition is_handle :: "string \<Rightarrow> bool" where
  "is_handle h =
     (h \<noteq> [] \<and> list_all handle_char h \<and> hd h \<noteq> CHR ''@''
      \<and> \<not> startswith (py_lower h) ''id:'')"

definition url_tail :: "string \<Rightarrow> bool" where
  "url_tail t =
     (t = [] \<or> (is_delim (hd t) \<and> list_all is_ascii t \<and> \<not> is_space (last t)))"


section \<open>A sample platform\<close>

text \<open>Concrete values on which the statements below are evaluated: two media items and
  a message of another shape, an account, and a platform whose patterns accept the
  profile and search URLs of \<open>x.com\<close> and whose instances all behave as one given
  extractor.\<close>

definition endswith :: "string \<Rightarrow> string \<Rightarrow> bool" where
  "endswith s p = startswith (rev s) (rev p)"

definition sample_user :: user_data where
  "sample_user =
     \<lparr>ud_name = Some ''Sample'', ud_nick = Some ''sample'',
      ud_date = Some (DateRaw ''2020-01-01 00:00:00''), ud_followers_count = Some 10,
      ud_friends_count = Some 20, ud_profile_image = None, ud_statuses_count = Some 3\<rparr>"

definition photo_tweet :: tweet_data where
  "photo_tweet =
     \<lparr>td_date = Some (DateRaw ''2024-05-01 10:00:00''), td_tweet_id = Some 101,
      td_type = Some ''photo'', td_retweet_id = None, td_user = Some sample_user\<rparr>"

definition video_tweet :: tweet_data where
  "video_tweet =
     \<lparr>td_date = Some (DateRaw ''2024-05-02 10:00:00''), td_tweet_id = Some 102,
      td_type = Some ''video'', td_retweet_id = Some 0, td_user = Some sample_user\<rparr>"

definition gif_tweet :: tweet_data where
  "gif_tweet =
     \<lparr>td_date = Some (DateRaw ''2024-05-03 10:00:00''), td_tweet_id = Some 103,
      td_type = Some ''animated_gif'', td_retweet_id = Some 77, td_user = None\<rparr>"

definition image_url :: string where
  "image_url = ''https://pbs.twimg.com/media/a.jpg''"

definition video_url :: string where
  "video_url = ''https://video.twimg.com/ext_tw_video/1/b.mp4''"

definition sample_items :: "item list" where
  "sample_items = [OtherItem, Tuple3 image_url photo_tweet, Tuple3 video_url video_tweet]"

definition sample_raw_user :: raw_user where
  "sample_raw_user = \<lparr>ru_rest_id = ''42'', ru_legacy = Some \<lparr>lg_withheld_scope = None\<rparr>\<rparr>"

definition withheld_raw_user :: raw_user where
  "withheld_raw_user =
     \<lparr>ru_rest_id = ''42'', ru_legacy = Some \<lparr>lg_withheld_scope = Some ''country''\<rparr>\<rparr>"

definition sample_extractor :: extractor where
  "sample_extractor =
     \<lparr>ex_initialize = None, ex_api = None,
      ex_user_by_screen_name = (\<lambda>name. Inr sample_raw_user),
      ex_user_by_rest_id = (\<lambda>rest_id. Inr sample_raw_user),
      ex_transform_user = (\<lambda>user. Inr sample_user),
      ex_items = sample_items, ex_end = None,
      ex_cursor = (\<lambda>n. None)\<rparr>"

definition sample_pattern :: "extractor_class \<Rightarrow> string \<Rightarrow> bool" where
  "sample_pattern cls url =
     (startswith url ''https://x.com/'' \<and>
      (case cls of
         TwitterMediaExtractor \<Rightarrow> endswith url ''/media''
       | TwitterTweetsExtractor \<Rightarrow> endswith url ''/tweets''
       | TwitterRepliesExtractor \<Rightarrow> endswith url ''/with_replies''
       | TwitterTimelineExtractor \<Rightarrow> endswith url ''/timeline''
       | TwitterSearchExtractor \<Rightarrow> startswith url ''https://x.com/search?q=''))"

definition sample_platform :: "extractor \<Rightarrow> platform" where
  "sample_platform ex =
     \<lparr>pf_pattern = sample_pattern,
      pf_extractor = (\<lambda>cls url cfg. ex),
      pf_now = \<lparr>dt_year = 2024, dt_month = 6, dt_day = 1, dt_hour = 12, dt_minute = 0,
                dt_second = 0\<rparr>,
      pf_strftime = (\<lambda>d. ''2024-06-01 12:00:00'')\<rparr>"

definition auth_failure :: exn where
  "auth_failure = \<lparr>exn_class = OtherException, exn_str = ''None'', exn_response = None\<rparr>"

definition transport_failure :: exn where
  "transport_failure =
     \<lparr>exn_class = OtherException, exn_str = ''connection reset'',
      exn_response = Some (NoText ''NoneType'')\<rparr>"


text \<open>Variations of the sample extractor: one that already exposes a cursor, one whose
  initialisation fails, two whose stream ends by raising; a platform whose patterns
  match nothing; and the bodies the sample platform returns for a first page of two
  items under the image filter and for a search.\<close>

definition cursor_extractor :: extractor where
  "cursor_extractor = sample_extractor\<lparr>ex_cursor := (\<lambda>n. Some ''DAABCgABF__'')\<rparr>"

definition failing_extractor :: extractor where
  "failing_extractor = sample_extractor\<lparr>ex_initialize := Some auth_failure\<rparr>"

definition raising_extractor :: extractor where
  "raising_extractor = sample_extractor\<lparr>ex_end := Some transport_failure\<rparr>"

definition interrupted_extractor :: extractor where
  "interrupted_extractor = sample_extractor\<lparr>ex_end := Some auth_failure\<rparr>"

definition rejecting_platform :: platform where
  "rejecting_platform = (sample_platform sample_extractor)\<lparr>pf_pattern := (\<lambda>cls url. False)\<rparr>"

definition sample_account :: account_info where
  "sample_account =
     \<lparr>ai_name = ''Sample'', ai_nick = ''sample'', ai_date = ''2020-01-01 00:00:00'',
      ai_followers_count = 10, ai_friends_count = 20, ai_profile_image = [],
      ai_statuses_count = 3\<rparr>"

definition photo_entry :: timeline_entry where
  "photo_entry =
     \<lparr>te_url = ''https://pbs.twimg.com/media/a.jpg'', te_date = ''2024-05-01 10:00:00'',
      te_tweet_id = 101, te_type = Some ''photo'', te_retweet_id = None,
      te_is_retweet = False\<rparr>"

definition video_entry :: timeline_entry where
  "video_entry =
     \<lparr>te_url = ''https://video.twimg.com/ext_tw_video/1/b.mp4'',
      te_date = ''2024-05-02 10:00:00'', te_tweet_id = 102, te_type = Some ''video'',
      te_retweet_id = None, te_is_retweet = False\<rparr>"

definition sample_page :: timeline_output where
  "sample_page =
     \<lparr>to_account_info = sample_account, to_total_urls = 1, to_timeline = [photo_entry],
      to_metadata =
        \<lparr>pm_new_entries = 1, pm_page = 0, pm_batch_size = 2, pm_has_more = True,
         pm_cursor = None\<rparr>\<rparr>"

definition sample_search :: search_output where
  "sample_search =
     \<lparr>so_account_info = sample_account, so_total_urls = 2,
      so_timeline = [photo_entry, video_entry],
      so_search_query = ''from:sample since:2024-01-01 until:2024-12-31 filter:media'',
      so_date_filter =
        \<lparr>df_start = ''2024-01-01'', df_end = ''2024-12-31'', df_method = ''search_api''\<rparr>,
      so_metadata =
        \<lparr>sm_new_entries = 2, sm_method = ''search_api'',
         sm_date_range = ''2024-01-01 to 2024-12-31''\<rparr>\<rparr>"


section \<open>The entry points, unfolded\<close>

lemma get_metadata_unfold:
  "get_metadata pf ui tok tt bs pg mt rt =
     (if \<not> timeline_url_ok pf ui tt then
        Inl (value_error (''Invalid URL for '' @ tt @ '': '' @ timeline_url (parse_username ui) tt))
      else
        case get_metadata_body pf (timeline_extractor pf ui tok tt bs rt) (parse_username ui) bs pg mt of
          Inl e \<Rightarrow> handle_failure e
        | Inr body \<Rightarrow> Inr (TimelineBody body))"
  by (simp add: get_metadata_def timeline_url_ok_def timeline_extractor_def Let_def)

lemma get_metadata_by_date_unfold:
  "get_metadata_by_date pf ui tok ds de mf =
     (if \<not> search_url_ok pf ui ds de mf then
        Inl (value_error (''Invalid search URL: '' @ search_url_of ui ds de mf))
      else
        case get_metadata_by_date_body pf (search_extractor pf ui tok ds de mf) (parse_username ui)
               (search_query (parse_username ui) ds de mf) ds de of
          Inl e \<Rightarrow> handle_failure e
        | Inr body \<Rightarrow> Inr (SearchBody body))"
  by (simp add: get_metadata_by_date_def search_url_ok_def search_extractor_def
      search_url_of_def Let_def)

lemma is_withheld_value_error:
  "is_withheld_error (value_error WITHHELD_ERROR_CODE) = Inr True"
  by (simp add: is_withheld_error_def value_error_def)

lemma resolve_user_withheld:
  "has_withheld_scope user \<Longrightarrow> resolve_user (Inr user) = Inl (value_error WITHHELD_ERROR_CODE)"
  by (simp add: resolve_user_def lookup_except_def is_withheld_value_error)

lemma handle_failure_withheld:
  "handle_failure (value_error WITHHELD_ERROR_CODE) = Inr (ErrorBody ERROR_MSG_WITHHELD)"
  by (simp add: handle_failure_def is_withheld_value_error)

section \<open>The media filter\<close>

text \<open>
  Claim C7. For every media URL, tweet metadata record and requested filter value, the
  filter includes the pair exactly when the value is \<open>all\<close>, or it is \<open>image\<close> and the URL
  contains the image domain and the tweet type is \<open>photo\<close>, or it is \<open>video\<close> and the URL
  contains the video domain and the type is \<open>video\<close>, or it is \<open>gif\<close> and the URL contains
  the video domain and the type is \<open>animated_gif\<close>; every other combination is excluded.
  In particular a photo on the image domain passes \<open>image\<close> and fails \<open>video\<close> and \<open>gif\<close>,
  and an animated GIF on the video domain passes \<open>gif\<close> and fails \<open>image\<close> and \<open>video\<close>.
\<close>

theorem should_include_media_cases:
  "(should_include_media media_url tweet media_type \<longleftrightarrow>
      media_type = ''all''
      \<or> (media_type = ''image'' \<and> py_in TWITTER_IMAGE_DOMAIN media_url
            \<and> td_type tweet = Some ''photo'')
      \<or> (media_type = ''video'' \<and> py_in TWITTER_VIDEO_DOMAIN media_url
            \<and> td_type tweet = Some ''video'')
      \<or> (media_type = ''gif'' \<and> py_in TWITTER_VIDEO_DOMAIN media_url
            \<and> td_type tweet = Some ''animated_gif''))
   \<and> (py_in TWITTER_IMAGE_DOMAIN media_url \<and> td_type tweet = Some ''photo'' \<longrightarrow>
        should_include_media media_url tweet ''image''
        \<and> \<not> should_include_media media_url tweet ''video''
        \<and> \<not> should_include_media media_url tweet ''gif'')
   \<and> (py_in TWITTER_VIDEO_DOMAIN media_url \<and> td_type tweet = Some ''animated_gif'' \<longrightarrow>
        should_include_media media_url tweet ''gif''
        \<and> \<not> should_include_media media_url tweet ''image''
        \<and> \<not> should_include_media media_url tweet ''video'')"
  by (auto simp add: should_include_media_def Let_def)

theorem should_include_media_cases_witness:
  "should_include_media image_url photo_tweet ''image''
   \<and> \<not> should_include_media image_url photo_tweet ''video''
   \<and> \<not> should_include_media image_url photo_tweet ''gif''
   \<and> should_include_media video_url gif_tweet ''gif''
   \<and> \<not> should_include_media video_url gif_tweet ''image''
   \<and> \<not> should_include_media video_url gif_tweet ''video''"
proof -
  have h1: "py_in TWITTER_IMAGE_DOMAIN image_url \<and> td_type photo_tweet = Some ''photo''"
    by code_simp
  have h2: "py_in TWITTER_VIDEO_DOMAIN video_url \<and> td_type gif_tweet = Some ''animated_gif''"
    by code_simp
  show ?thesis
    using should_include_media_cases [of image_url photo_tweet "''image''"]
      should_include_media_cases [of video_url gif_tweet "''gif''"] h1 h2
    by blast
qed

section \<open>The error classifier\<close>

text \<open>
  Claim C10. The claim is that \<open>_is_withheld_error\<close> returns a boolean for every exception,
  also for one whose \<open>response\<close> attribute has no \<open>text\<close>. On a transport failure whose
  \<open>response\<close> is \<open>None\<close> the classifier does not answer: reading \<open>error.response.text\<close>
  raises \<open>AttributeError\<close>.
\<close>

theorem is_withheld_error_raises_without_text:
  "is_withheld_error transport_failure = Inl (attribute_error ''NoneType'')"
  by (simp add: is_withheld_error_def transport_failure_def)

section \<open>Failures at the engine boundary\<close>

text \<open>
  Claim C9. A failure caught at the engine boundary whose \<open>str()\<close> is exactly \<open>None\<close> and
  which the classifier does not classify as withheld gives the fixed
  authentication-failure message as the error field, in the handler itself and in both
  entry points whenever their guarded block raises such a failure.
\<close>

theorem none_message_is_auth_failure:
  assumes "exn_str e = ''None''" and "is_withheld_error e = Inr False"
  shows "handle_failure e = Inr (ErrorBody ERROR_MSG_AUTH_FAILED)
    \<and> (timeline_url_ok pf ui tt \<longrightarrow>
         get_metadata_body pf (timeline_extractor pf ui tok tt bs rt) (parse_username ui) bs pg mt = Inl e \<longrightarrow>
         get_metadata pf ui tok tt bs pg mt rt = Inr (ErrorBody ERROR_MSG_AUTH_FAILED))
    \<and> (search_url_ok pf ui ds de mf \<longrightarrow>
         get_metadata_by_date_body pf (search_extractor pf ui tok ds de mf) (parse_username ui)
           (search_query (parse_username ui) ds de mf) ds de = Inl e \<longrightarrow>
         get_metadata_by_date pf ui tok ds de mf = Inr (ErrorBody ERROR_MSG_AUTH_FAILED))"
proof -
  have h: "handle_failure e = Inr (ErrorBody ERROR_MSG_AUTH_FAILED)"
    using assms by (simp add: handle_failure_def)
  then show ?thesis
    by (simp add: get_metadata_unfold get_metadata_by_date_unfold)
qed

theorem none_message_is_auth_failure_witness:
  "get_metadata (sample_platform (sample_extractor\<lparr>ex_initialize := Some auth_failure\<rparr>))
     ''@Sample'' ''token'' ''media'' 100 0 ''all'' False
     = Inr (ErrorBody ERROR_MSG_AUTH_FAILED)
   \<and> get_metadata_by_date (sample_platform (sample_extractor\<lparr>ex_initialize := Some auth_failure\<rparr>))
     ''@Sample'' ''token'' ''2024-01-01'' ''2024-12-31'' ''filter:media''
     = Inr (ErrorBody ERROR_MSG_AUTH_FAILED)"
proof -
  let ?p = "sample_platform (sample_extractor\<lparr>ex_initialize := Some auth_failure\<rparr>)"
  have a: "exn_str auth_failure = ''None''"
    by (simp add: auth_failure_def)
  have b: "is_withheld_error auth_failure = Inr False"
    by code_simp
  have c: "timeline_url_ok ?p ''@Sample'' ''media''"
    by code_simp
  have d: "get_metadata_body ?p
      (timeline_extractor ?p ''@Sample'' ''token'' ''media'' 100 False)
      (parse_username ''@Sample'') 100 0 ''all'' = Inl auth_failure"
    by (simp add: get_metadata_body_def timeline_extractor_def sample_platform_def)
  have e: "search_url_ok ?p ''@Sample'' ''2024-01-01'' ''2024-12-31'' ''filter:media''"
    by code_simp
  have f: "get_metadata_by_date_body ?p
      (search_extractor ?p ''@Sample'' ''token'' ''2024-01-01'' ''2024-12-31'' ''filter:media'')
      (parse_username ''@Sample'')
      (search_query (parse_username ''@Sample'') ''2024-01-01'' ''2024-12-31'' ''filter:media'')
      ''2024-01-01'' ''2024-12-31'' = Inl auth_failure"
    by (simp add: get_metadata_by_date_body_def search_extractor_def sample_platform_def)
  show ?thesis
    using none_message_is_auth_failure [OF a b, where pf = ?p and ui = "''@Sample''" and tt = "''media''"
        and tok = "''token''" and bs = 100 and rt = False and pg = 0 and mt = "''all''"
        and ds = "''2024-01-01''" and de = "''2024-12-31''" and mf = "''filter:media''"]
      c d e f
    by simp
qed

text \<open>
  Claim C8. In either entry point, an account lookup that returns (without raising) a user
  record whose \<open>legacy\<close> object carries a truthy \<open>withheld_scope\<close> makes the call return
  the fixed withheld message as its error field.
\<close>

theorem withheld_scope_gives_withheld_message:
  "(timeline_url_ok pf ui tt \<longrightarrow>
      ex_initialize (timeline_extractor pf ui tok tt bs rt) = None \<longrightarrow>
      ex_api (timeline_extractor pf ui tok tt bs rt) = None \<longrightarrow>
      timeline_lookup (timeline_extractor pf ui tok tt bs rt) (parse_username ui) = Inr user \<longrightarrow>
      has_withheld_scope user \<longrightarrow>
      get_metadata pf ui tok tt bs pg mt rt = Inr (ErrorBody ERROR_MSG_WITHHELD))
   \<and> (search_url_ok pf ui ds de mf \<longrightarrow>
      ex_initialize (search_extractor pf ui tok ds de mf) = None \<longrightarrow>
      ex_api (search_extractor pf ui tok ds de mf) = None \<longrightarrow>
      ex_user_by_screen_name (search_extractor pf ui tok ds de mf) (parse_username ui) = Inr user' \<longrightarrow>
      has_withheld_scope user' \<longrightarrow>
      get_metadata_by_date pf ui tok ds de mf = Inr (ErrorBody ERROR_MSG_WITHHELD))"
  by (simp add: get_metadata_unfold get_metadata_by_date_unfold get_metadata_body_def
      get_metadata_by_date_body_def resolve_user_withheld handle_failure_withheld)

theorem withheld_scope_gives_withheld_message_witness:
  "get_metadata
     (sample_platform (sample_extractor\<lparr>ex_user_by_screen_name := (\<lambda>r. Inr withheld_raw_user)\<rparr>))
     ''Sample'' ''token'' ''timeline'' 0 0 ''all'' True
     = Inr (ErrorBody ERROR_MSG_WITHHELD)
   \<and> get_metadata_by_date
     (sample_platform (sample_extractor\<lparr>ex_user_by_screen_name := (\<lambda>r. Inr withheld_raw_user)\<rparr>))
     ''Sample'' ''token'' ''2024-01-01'' ''2024-12-31'' ''''
     = Inr (ErrorBody ERROR_MSG_WITHHELD)"
proof -
  let ?p = "sample_platform (sample_extractor\<lparr>ex_user_by_screen_name := (\<lambda>r. Inr withheld_raw_user)\<rparr>)"
  let ?e1 = "timeline_extractor ?p ''Sample'' ''token'' ''timeline'' 0 True"
  let ?e2 = "search_extractor ?p ''Sample'' ''token'' ''2024-01-01'' ''2024-12-31'' ''''"
  have a: "timeline_url_ok ?p ''Sample'' ''timeline''"
    by code_simp
  have b: "ex_initialize ?e1 = None" "ex_api ?e1 = None"
    by (simp_all add: timeline_extractor_def sample_platform_def sample_extractor_def)
  have c: "timeline_lookup ?e1 (parse_username ''Sample'') = Inr withheld_raw_user"
    by code_simp
  have d: "has_withheld_scope withheld_raw_user"
    by code_simp
  have e: "search_url_ok ?p ''Sample'' ''2024-01-01'' ''2024-12-31'' ''''"
    by code_simp
  have f: "ex_initialize ?e2 = None" "ex_api ?e2 = None"
    by (simp_all add: search_extractor_def sample_platform_def sample_extractor_def)
  have g: "ex_user_by_screen_name ?e2 (parse_username ''Sample'') = Inr withheld_raw_user"
    by (simp add: search_extractor_def sample_platform_def sample_extractor_def)
  show ?thesis
    using withheld_scope_gives_withheld_message [where pf = ?p and ui = "''Sample''" and tt = "''timeline''"
        and tok = "''token''" and bs = 0 and rt = True and user = withheld_raw_user
        and pg = 0 and mt = "''all''" and ds = "''2024-01-01''" and de = "''2024-12-31''"
        and mf = "''''" and user' = withheld_raw_user]
      a b c d e f g
    by simp
qed

section \<open>The loops\<close>

lemma skip_loop_enough:
  "n \<le> length xs \<Longrightarrow>
   skip_loop n (Iterator xs e c) k = Inr (Iterator (drop n xs) e (c + n), k + n)"
proof (induction n arbitrary: xs c k)
  case 0
  then show ?case by simp
next
  case (Suc n)
  then obtain y ys where xs: "xs = y # ys"
    by (cases xs) auto
  with Suc.prems have "n \<le> length ys" by simp
  from Suc.IH [OF this] show ?case
    by (simp add: xs)
qed

lemma skip_loop_exhausts:
  "length xs < n \<Longrightarrow>
   skip_loop n (Iterator xs None c) k
     = Inr (Iterator [] None (Suc (c + length xs)), k + length xs)"
proof (induction n arbitrary: xs c k)
  case 0
  then show ?case by simp
next
  case (Suc n)
  show ?case
  proof (cases xs)
    case Nil
    then show ?thesis by simp
  next
    case (Cons y ys)
    with Suc.prems have "length ys < n" by simp
    from Suc.IH [OF this] show ?thesis
      by (simp add: Cons)
  qed
qed

lemma skip_loop_raises:
  "length xs < n \<Longrightarrow> skip_loop n (Iterator xs (Some e) c) k = Inl e"
proof (induction n arbitrary: xs c k)
  case 0
  then show ?case by simp
next
  case (Suc n)
  show ?case
  proof (cases xs)
    case Nil
    then show ?thesis by simp
  next
    case (Cons y ys)
    with Suc.prems have "length ys < n" by simp
    from Suc.IH [OF this] show ?thesis
      by (simp add: Cons)
  qed
qed

lemma skip_phase_iter:
  "skip_phase ex bs pg =
     (if bs > 0 \<and> pg > 0 \<and> \<not> truthy (ex_cursor ex 0)
      then skip_loop (nat (pg * bs)) (Iterator (ex_items ex) (ex_end ex) 0) 0
      else Inr (Iterator (ex_items ex) (ex_end ex) 0, 0))"
  by (simp add: skip_phase_def py_iter_def Let_def)

lemma fetch_loop_Cons:
  "fetch_loop pf mt lim (Iterator (x # xs) e c) st =
     (if below (fs_items_fetched st) lim
      then fetch_loop pf mt lim (Iterator xs e (Suc c)) (fetch_step pf mt st x)
      else Inr (Iterator (x # xs) e c, st))"
  by (subst fetch_loop.simps) (simp add: fetch_step_def)

lemma fetch_loop_Nil:
  "fetch_loop pf mt lim (Iterator [] e c) st =
     (if below (fs_items_fetched st) lim
      then (case e of None \<Rightarrow> Inr (Iterator [] None (Suc c), st) | Some ex \<Rightarrow> Inl ex)
      else Inr (Iterator [] e c, st))"
  by (subst fetch_loop.simps) (simp split: option.splits)

lemma fetched_fetch_step [simp]:
  "fs_items_fetched (fetch_step pf mt st x) = Suc (fs_items_fetched st)"
  by (simp add: fetch_step_def process_item_def Let_def split: item.splits option.splits)

lemma total_urls_fetch_step [simp]:
  "fs_total_urls (fetch_step pf mt st x) = fs_total_urls st + (if passes mt x then 1 else 0)"
  by (simp add: fetch_step_def process_item_def passes_def Let_def split: item.splits option.splits)

lemma length_entries_fetch_step [simp]:
  "length (fs_new_timeline_entries (fetch_step pf mt st x))
     = length (fs_new_timeline_entries st) + (if passes mt x then 1 else 0)"
  by (simp add: fetch_step_def process_item_def passes_def Let_def split: item.splits option.splits)

lemma fetched_foldl [simp]:
  "fs_items_fetched (foldl (fetch_step pf mt) st xs) = fs_items_fetched st + length xs"
  by (induction xs arbitrary: st) simp_all

lemma total_urls_foldl [simp]:
  "fs_total_urls (foldl (fetch_step pf mt) st xs) = fs_total_urls st + passing_count mt xs"
  by (induction xs arbitrary: st) (simp_all add: passing_count_def)

lemma length_entries_foldl [simp]:
  "length (fs_new_timeline_entries (foldl (fetch_step pf mt) st xs))
     = length (fs_new_timeline_entries st) + passing_count mt xs"
  by (induction xs arbitrary: st) (simp_all add: passing_count_def)

lemma fetch_loop_unbounded:
  "fetch_loop pf mt None (Iterator xs e c) st =
     (case e of
        None \<Rightarrow> Inr (Iterator [] None (Suc (c + length xs)), foldl (fetch_step pf mt) st xs)
      | Some ex \<Rightarrow> Inl ex)"
proof (induction xs arbitrary: c st)
  case Nil
  show ?case by (cases e) (simp_all add: fetch_loop_Nil below_def)
next
  case (Cons x xs)
  show ?case using Cons.IH by (cases e) (simp_all add: fetch_loop_Cons below_def)
qed

lemma fetch_loop_capped:
  "fetch_loop pf mt (Some l) (Iterator xs e c) st =
     (let n = nat (l - int (fs_items_fetched st)) in
      if n \<le> length xs
      then Inr (Iterator (drop n xs) e (c + n), foldl (fetch_step pf mt) st (take n xs))
      else (case e of
              None \<Rightarrow> Inr (Iterator [] None (Suc (c + length xs)), foldl (fetch_step pf mt) st xs)
            | Some ex \<Rightarrow> Inl ex))"
proof (induction xs arbitrary: c st)
  case Nil
  show ?case by (auto simp add: fetch_loop_Nil below_def Let_def split: option.splits)
next
  case (Cons x xs)
  show ?case
  proof (cases "below (fs_items_fetched st) (Some l)")
    case False
    then show ?thesis by (simp add: fetch_loop_Cons below_def Let_def)
  next
    case True
    then have "nat (l - int (fs_items_fetched st)) = Suc (nat (l - int (Suc (fs_items_fetched st))))"
      by (simp add: below_def)
    with True show ?thesis
      by (simp add: fetch_loop_Cons Cons.IH Let_def split: option.splits)
  qed
qed

lemma fetch_loop_fetched:
  assumes "fetch_loop pf mt (items_to_fetch bs) it initial_state = Inr (it', st)"
  shows "fs_items_fetched st = length (fetched_items bs it)
    \<and> fs_total_urls st = passing_count mt (fetched_items bs it)
    \<and> length (fs_new_timeline_entries st) = passing_count mt (fetched_items bs it)"
proof (cases it)
  case (Iterator xs e c)
  have init: "fs_items_fetched initial_state = 0" "fs_total_urls initial_state = 0"
    "fs_new_timeline_entries initial_state = []"
    by (simp_all add: initial_state_def)
  show ?thesis
  proof (cases "0 < bs")
    case True
    with assms Iterator have
      "st = foldl (fetch_step pf mt) initial_state (take (nat bs) xs)"
      by (auto simp add: items_to_fetch_def fetch_loop_capped init Let_def
          split: if_splits option.splits)
    with True Iterator init show ?thesis
      by (simp add: fetched_items_def)
  next
    case False
    with assms Iterator have "st = foldl (fetch_step pf mt) initial_state xs"
      by (auto simp add: items_to_fetch_def fetch_loop_unbounded split: option.splits)
    with False Iterator init show ?thesis
      by (simp add: fetched_items_def)
  qed
qed

lemma search_loop_Cons:
  "search_loop pf (Iterator (x # xs) e c) acc =
     search_loop pf (Iterator xs e (Suc c))
       (case x of
          Tuple3 media_url tweet \<Rightarrow>
            if is_twitter_media media_url
            then (fst acc @ [build_timeline_entry pf media_url tweet], snd acc + 1)
            else acc
        | OtherItem \<Rightarrow> acc)"
  by (subst search_loop.simps) simp

lemma search_loop_Nil: "search_loop pf (Iterator [] e c) acc = acc"
  by (cases e; subst search_loop.simps) simp_all

lemma search_loop_counts:
  "snd (search_loop pf (Iterator xs e c) acc) = snd acc + length (filter is_media_item xs)
   \<and> length (fst (search_loop pf (Iterator xs e c) acc))
       = length (fst acc) + length (filter is_media_item xs)"
proof (induction xs arbitrary: c acc)
  case Nil
  show ?case by (simp add: search_loop_Nil)
next
  case (Cons x xs)
  show ?case
    by (simp add: search_loop_Cons Cons.IH is_media_item_def split: item.splits)
qed

lemma get_metadata_success:
  assumes "get_metadata pf ui tok tt bs pg mt rt = Inr (TimelineBody out)"
  shows "\<exists>it skipped it' st.
      skip_phase (timeline_extractor pf ui tok tt bs rt) bs pg = Inr (it, skipped)
      \<and> fetch_loop pf mt (items_to_fetch bs) it initial_state = Inr (it', st)
      \<and> to_total_urls out = fs_total_urls st
      \<and> to_timeline out = fs_new_timeline_entries st
      \<and> pm_has_more (to_metadata out) = (bs > 0 \<and> int (fs_items_fetched st) = bs)"
proof -
  let ?ex = "timeline_extractor pf ui tok tt bs rt"
  have ne: "\<And>e. handle_failure e \<noteq> Inr (TimelineBody out)"
    by (simp add: handle_failure_def Let_def split: sum.splits)
  from assms have body: "get_metadata_body pf ?ex (parse_username ui) bs pg mt = Inr out"
    by (auto simp add: get_metadata_unfold ne split: if_splits sum.splits)
  then show ?thesis
    by (auto simp add: get_metadata_body_def Let_def
        split: option.splits sum.splits prod.splits)
qed

lemma handle_failure_not_found:
  "handle_failure (value_error ERROR_MSG_ACCOUNT_NOT_FOUND)
     = Inr (ErrorBody ERROR_MSG_ACCOUNT_NOT_FOUND)"
  by code_simp

lemma handle_failure_returns:
  "response_has_text e \<Longrightarrow> \<exists>m. handle_failure e = Inr (ErrorBody m)"
  by (auto simp add: handle_failure_def response_has_text_def is_withheld_error_def Let_def
      split: option.splits response.splits)

lemma sample_page_call:
  "get_metadata (sample_platform sample_extractor) ''@Sample'' ''token'' ''media'' 2 0 ''image''
     False = Inr (TimelineBody sample_page)"
  by code_simp

lemma sample_search_call:
  "get_metadata_by_date (sample_platform sample_extractor) ''@Sample'' ''token'' ''2024-01-01''
     ''2024-12-31'' ''filter:media'' = Inr (SearchBody sample_search)"
  by code_simp


section \<open>Offset pagination\<close>

text \<open>
  Claim C3, amended. For \<^verbatim>\<open>page > 0\<close> and \<^verbatim>\<open>batch_size > 0\<close>: when the extractor already
  exposes a truthy cursor, the engine skips nothing and fetches from the start of the
  stream. Otherwise it advances the iterator by \<^verbatim>\<open>page * batch_size\<close> items, discarding
  them, when the stream has that many; when the stream is shorter and ends by exhaustion
  it discards all of its items and stops without error; when the shorter stream ends by
  raising, the skip raises that failure.
\<close>

theorem skip_phase_cases:
  assumes "0 < page" and "0 < batch_size"
  shows "(truthy (ex_cursor ex 0) \<longrightarrow> skip_phase ex batch_size page = Inr (py_iter ex, 0))
    \<and> (\<not> truthy (ex_cursor ex 0) \<and> nat (page * batch_size) \<le> length (ex_items ex) \<longrightarrow>
         skip_phase ex batch_size page
           = Inr (Iterator (drop (nat (page * batch_size)) (ex_items ex)) (ex_end ex)
                    (nat (page * batch_size)),
                  nat (page * batch_size)))
    \<and> (\<not> truthy (ex_cursor ex 0) \<and> length (ex_items ex) < nat (page * batch_size)
          \<and> ex_end ex = None \<longrightarrow>
         skip_phase ex batch_size page
           = Inr (Iterator [] None (Suc (length (ex_items ex))), length (ex_items ex)))
    \<and> (\<not> truthy (ex_cursor ex 0) \<and> length (ex_items ex) < nat (page * batch_size)
          \<and> ex_end ex = Some e \<longrightarrow>
         skip_phase ex batch_size page = Inl e)"
  using assms
  by (simp add: skip_phase_iter py_iter_def skip_loop_enough skip_loop_exhausts skip_loop_raises)

theorem skip_phase_cases_witness:
  "skip_phase cursor_extractor 2 1 = Inr (py_iter cursor_extractor, 0)
   \<and> skip_phase sample_extractor 2 1 = Inr (Iterator (drop 2 sample_items) None 2, 2)
   \<and> skip_phase sample_extractor 2 2 = Inr (Iterator [] None 4, 3)
   \<and> skip_phase raising_extractor 2 2 = Inl transport_failure"
proof -
  have a: "(0::int) < 1" "(0::int) < 2"
    by simp_all
  have c: "truthy (ex_cursor cursor_extractor 0)"
    by code_simp
  have s: "\<not> truthy (ex_cursor sample_extractor 0)" "ex_items sample_extractor = sample_items"
    "ex_end sample_extractor = None" "length sample_items = 3"
    by (simp_all add: sample_extractor_def sample_items_def truthy_def)
  have r: "\<not> truthy (ex_cursor raising_extractor 0)" "ex_items raising_extractor = sample_items"
    "ex_end raising_extractor = Some transport_failure"
    by (simp_all add: raising_extractor_def sample_extractor_def truthy_def)
  from skip_phase_cases [OF a(1) a(2), of cursor_extractor] c
  have 1: "skip_phase cursor_extractor 2 1 = Inr (py_iter cursor_extractor, 0)"
    by simp
  from skip_phase_cases [OF a(1) a(2), of sample_extractor] s
  have 2: "skip_phase sample_extractor 2 1 = Inr (Iterator (drop 2 sample_items) None 2, 2)"
    by simp
  from skip_phase_cases [OF a(2) a(2), of sample_extractor] s
  have 3: "skip_phase sample_extractor 2 2 = Inr (Iterator [] None 4, 3)"
    by simp
  from skip_phase_cases [OF a(2) a(2), of raising_extractor transport_failure] r s(4)
  have 4: "skip_phase raising_extractor 2 2 = Inl transport_failure"
    by simp
  from 1 2 3 4 show ?thesis by simp
qed


text \<open>Against C3 as stated: with a cursor on the extractor, page 1 of batch size 2 skips no
  item of a three-item stream; and page 2 of batch size 2 can skip only the three items
  there are, not four.\<close>

theorem cursor_suppresses_skip:
  "skip_phase cursor_extractor 2 1 = Inr (Iterator sample_items None 0, 0)
   \<and> skip_phase sample_extractor 2 2 = Inr (Iterator [] None 4, 3)"
  by code_simp


text \<open>
  Claim C2, amended. For \<^verbatim>\<open>batch_size = 100\<close> and \<^verbatim>\<open>page = 2\<close>, on a stream of fewer than
  200 items that ends by exhaustion, with the URL accepted, the account resolved and no
  cursor on the extractor: the skip phase exhausts the stream without error, the fetch
  phase then sees no item, no account information is populated, and the call returns
  the account-not-found message as its error field.
\<close>

theorem page_beyond_stream_is_not_found:
  assumes "timeline_url_ok pf ui tt"
    and "ex_initialize (timeline_extractor pf ui tok tt 100 rt) = None"
    and "ex_api (timeline_extractor pf ui tok tt 100 rt) = None"
    and "resolve_user (timeline_lookup (timeline_extractor pf ui tok tt 100 rt) (parse_username ui))
           = Inr user"
    and "\<not> truthy (ex_cursor (timeline_extractor pf ui tok tt 100 rt) 0)"
    and "length (ex_items (timeline_extractor pf ui tok tt 100 rt)) < 200"
    and "ex_end (timeline_extractor pf ui tok tt 100 rt) = None"
  shows "skip_phase (timeline_extractor pf ui tok tt 100 rt) 100 2
           = Inr (Iterator [] None (Suc (length (ex_items (timeline_extractor pf ui tok tt 100 rt)))),
                  length (ex_items (timeline_extractor pf ui tok tt 100 rt)))
    \<and> get_metadata pf ui tok tt 100 2 mt rt = Inr (ErrorBody ERROR_MSG_ACCOUNT_NOT_FOUND)"
proof -
  let ?ex = "timeline_extractor pf ui tok tt 100 rt"
  have skip: "skip_phase ?ex 100 2
      = Inr (Iterator [] None (Suc (length (ex_items ?ex))), length (ex_items ?ex))"
    using assms(5,6,7) by (simp add: skip_phase_iter skip_loop_exhausts)
  have fetch: "fetch_loop pf mt (items_to_fetch 100)
      (Iterator [] None (Suc (length (ex_items ?ex)))) initial_state
      = Inr (Iterator [] None (Suc (Suc (length (ex_items ?ex)))), initial_state)"
    by (simp add: items_to_fetch_def fetch_loop_Nil below_def initial_state_def)
  have "get_metadata_body pf ?ex (parse_username ui) 100 2 mt
      = Inl (value_error ERROR_MSG_ACCOUNT_NOT_FOUND)"
    using assms(2,3,4) by (simp add: get_metadata_body_def skip fetch) (simp add: initial_state_def)
  then have "get_metadata pf ui tok tt 100 2 mt rt = Inr (ErrorBody ERROR_MSG_ACCOUNT_NOT_FOUND)"
    using assms(1) by (simp add: get_metadata_unfold handle_failure_not_found)
  with skip show ?thesis by simp
qed

theorem page_beyond_stream_is_not_found_witness:
  "skip_phase sample_extractor 100 2 = Inr (Iterator [] None 4, 3)
   \<and> get_metadata (sample_platform sample_extractor) ''sample'' ''token'' ''timeline'' 100 2
       ''image'' True = Inr (ErrorBody ERROR_MSG_ACCOUNT_NOT_FOUND)"
proof -
  let ?pf = "sample_platform sample_extractor"
  have ex: "timeline_extractor ?pf ''sample'' ''token'' ''timeline'' 100 True = sample_extractor"
    by (simp add: timeline_extractor_def sample_platform_def)
  have a: "timeline_url_ok ?pf ''sample'' ''timeline''"
    by code_simp
  have b: "ex_initialize sample_extractor = None" "ex_api sample_extractor = None"
    "\<not> truthy (ex_cursor sample_extractor 0)" "ex_end sample_extractor = None"
    by (simp_all add: sample_extractor_def truthy_def)
  have c: "resolve_user (timeline_lookup sample_extractor (parse_username ''sample''))
      = Inr sample_raw_user"
    by code_simp
  have d: "length (ex_items sample_extractor) < 200"
    by code_simp
  have e: "length (ex_items sample_extractor) = 3"
    by code_simp
  from page_beyond_stream_is_not_found [where pf = ?pf and ui = "''sample''" and tok = "''token''"
      and tt = "''timeline''" and rt = True and user = sample_raw_user and mt = "''image''"]
    a b c d
  show ?thesis
    by (simp add: ex e)
qed


text \<open>Against C2 as stated: on the three-item sample stream the call returns the
  account-not-found error, not a body with an empty timeline.\<close>

theorem page_beyond_stream_returns_error:
  "get_metadata (sample_platform sample_extractor) ''sample'' ''token'' ''timeline'' 100 2
     ''all'' False
   = Inr (ErrorBody ERROR_MSG_ACCOUNT_NOT_FOUND)"
  by code_simp


text \<open>
  Claim C4. In every successful call of \<^verbatim>\<open>get_metadata\<close>, \<^verbatim>\<open>has_more\<close> is true exactly
  when \<^verbatim>\<open>batch_size > 0\<close> and the number of items fetched in the fetch phase, after any
  skip, equals \<^verbatim>\<open>batch_size\<close>; that number is the number of items the loop can take from
  the iterator under the cap; \<^verbatim>\<open>has_more\<close> is false when fewer items than the cap were
  fetched, as when the stream ends with fewer items than the cap, and false when
  \<^verbatim>\<open>batch_size = 0\<close>.
\<close>

theorem has_more_iff_cap_reached:
  assumes "get_metadata pf ui tok tt bs pg mt rt = Inr (TimelineBody out)"
  shows "\<exists>it skipped it' st.
      skip_phase (timeline_extractor pf ui tok tt bs rt) bs pg = Inr (it, skipped)
      \<and> fetch_loop pf mt (items_to_fetch bs) it initial_state = Inr (it', st)
      \<and> fs_items_fetched st = length (fetched_items bs it)
      \<and> (pm_has_more (to_metadata out) \<longleftrightarrow> bs > 0 \<and> int (fs_items_fetched st) = bs)
      \<and> (int (fs_items_fetched st) < bs \<longrightarrow> \<not> pm_has_more (to_metadata out))
      \<and> (bs > 0 \<and> length (rest it) < nat bs \<longrightarrow> \<not> pm_has_more (to_metadata out))
      \<and> (bs = 0 \<longrightarrow> \<not> pm_has_more (to_metadata out))"
proof -
  from get_metadata_success [OF assms] obtain it skipped it' st where
    a: "skip_phase (timeline_extractor pf ui tok tt bs rt) bs pg = Inr (it, skipped)"
    and b: "fetch_loop pf mt (items_to_fetch bs) it initial_state = Inr (it', st)"
    and c: "pm_has_more (to_metadata out) = (bs > 0 \<and> int (fs_items_fetched st) = bs)"
    by blast
  from fetch_loop_fetched [OF b] have d: "fs_items_fetched st = length (fetched_items bs it)"
    by simp
  from c have "int (fs_items_fetched st) < bs \<longrightarrow> \<not> pm_has_more (to_metadata out)"
    and "bs = 0 \<longrightarrow> \<not> pm_has_more (to_metadata out)"
    by simp_all
  moreover from c d
  have "bs > 0 \<and> length (rest it) < nat bs \<longrightarrow> \<not> pm_has_more (to_metadata out)"
    by (auto simp add: fetched_items_def)
  ultimately show ?thesis
    using a b c d by blast
qed

theorem has_more_iff_cap_reached_witness:
  "get_metadata (sample_platform sample_extractor) ''@Sample'' ''token'' ''media'' 2 0 ''image''
     False = Inr (TimelineBody sample_page)
   \<and> pm_has_more (to_metadata sample_page)
   \<and> (\<exists>it skipped it' st.
        skip_phase
          (timeline_extractor (sample_platform sample_extractor) ''@Sample'' ''token'' ''media'' 2
             False) 2 0 = Inr (it, skipped)
        \<and> fetch_loop (sample_platform sample_extractor) ''image'' (items_to_fetch 2) it
            initial_state = Inr (it', st)
        \<and> fs_items_fetched st = 2)"
proof -
  have p: "pm_has_more (to_metadata sample_page)"
    by (simp add: sample_page_def)
  from has_more_iff_cap_reached [OF sample_page_call] p show ?thesis
    using sample_page_call by auto
qed


section \<open>What \<^verbatim>\<open>total_urls\<close> counts\<close>

text \<open>
  Claim C5, amended. In a successful timeline result, \<^verbatim>\<open>total_urls\<close> is the number of
  fetched items on a media domain that the media filter includes for the requested media
  type, which is the number of timeline entries. In a successful date-range result no
  media-type filter is applied: \<^verbatim>\<open>total_urls\<close> is the number of items of the stream on a
  media domain, which is again the number of timeline entries.
\<close>

theorem total_urls_counts:
  "(get_metadata pf ui tok tt bs pg mt rt = Inr (TimelineBody out) \<longrightarrow>
      (\<exists>it skipped.
         skip_phase (timeline_extractor pf ui tok tt bs rt) bs pg = Inr (it, skipped)
         \<and> to_total_urls out = passing_count mt (fetched_items bs it)
         \<and> to_total_urls out = length (to_timeline out)))
   \<and> (get_metadata_by_date pf ui tok ds de mf = Inr (SearchBody out') \<longrightarrow>
        so_total_urls out'
          = length (filter is_media_item (ex_items (search_extractor pf ui tok ds de mf)))
        \<and> so_total_urls out' = length (so_timeline out'))"
proof (intro conjI impI)
  assume h: "get_metadata pf ui tok tt bs pg mt rt = Inr (TimelineBody out)"
  from get_metadata_success [OF h] obtain it skipped it' st where
    a: "skip_phase (timeline_extractor pf ui tok tt bs rt) bs pg = Inr (it, skipped)"
    and b: "fetch_loop pf mt (items_to_fetch bs) it initial_state = Inr (it', st)"
    and c: "to_total_urls out = fs_total_urls st"
    and d: "to_timeline out = fs_new_timeline_entries st"
    by blast
  from fetch_loop_fetched [OF b] c d
  have "to_total_urls out = passing_count mt (fetched_items bs it)"
    and "to_total_urls out = length (to_timeline out)"
    by simp_all
  with a show "\<exists>it skipped.
         skip_phase (timeline_extractor pf ui tok tt bs rt) bs pg = Inr (it, skipped)
         \<and> to_total_urls out = passing_count mt (fetched_items bs it)
         \<and> to_total_urls out = length (to_timeline out)"
    by blast
next
  assume h: "get_metadata_by_date pf ui tok ds de mf = Inr (SearchBody out')"
  let ?ex = "search_extractor pf ui tok ds de mf"
  have ne: "\<And>e. handle_failure e \<noteq> Inr (SearchBody out')"
    by (simp add: handle_failure_def Let_def split: sum.splits)
  from h have body: "get_metadata_by_date_body pf ?ex (parse_username ui)
      (search_query (parse_username ui) ds de mf) ds de = Inr out'"
    by (auto simp add: get_metadata_by_date_unfold ne split: if_splits sum.splits)
  then have "so_total_urls out' = snd (search_loop pf (Iterator (ex_items ?ex) (ex_end ?ex) 0) ([], 0))"
    and "so_timeline out' = fst (search_loop pf (Iterator (ex_items ?ex) (ex_end ?ex) 0) ([], 0))"
    by (auto simp add: get_metadata_by_date_body_def Let_def py_iter_def
        split: option.splits sum.splits)
  then show "so_total_urls out' = length (filter is_media_item (ex_items ?ex))"
    and "so_total_urls out' = length (so_timeline out')"
    by (simp_all add: search_loop_counts)
qed

theorem total_urls_counts_witness:
  "to_total_urls sample_page = passing_count ''image'' (take 2 sample_items)
   \<and> to_total_urls sample_page = length (to_timeline sample_page)
   \<and> so_total_urls sample_search = length (filter is_media_item sample_items)
   \<and> so_total_urls sample_search = length (so_timeline sample_search)"
proof -
  let ?pf = "sample_platform sample_extractor"
  have ex: "timeline_extractor ?pf ''@Sample'' ''token'' ''media'' 2 False = sample_extractor"
    "search_extractor ?pf ''@Sample'' ''token'' ''2024-01-01'' ''2024-12-31'' ''filter:media''
       = sample_extractor"
    by (simp_all add: timeline_extractor_def search_extractor_def sample_platform_def)
  have sk: "skip_phase sample_extractor 2 0 = Inr (Iterator sample_items None 0, 0)"
    by (simp add: skip_phase_iter sample_extractor_def)
  have it: "ex_items sample_extractor = sample_items"
    by (simp add: sample_extractor_def)
  from total_urls_counts [where pf = ?pf and ui = "''@Sample''" and tok = "''token''" and tt = "''media''"
      and bs = 2 and pg = 0 and mt = "''image''" and rt = False and out = sample_page
      and ds = "''2024-01-01''" and de = "''2024-12-31''" and mf = "''filter:media''"
      and out' = sample_search]
    sample_page_call sample_search_call
  show ?thesis
    by (auto simp add: ex sk it fetched_items_def)
qed


text \<open>Against C5 as stated: the search over the sample stream counts two URLs, while
  the media filter includes none of its items under the filter clause of the call, one
  under \<^verbatim>\<open>image\<close>, one under \<^verbatim>\<open>video\<close> and none under \<^verbatim>\<open>gif\<close>.\<close>

theorem search_total_urls_unfiltered:
  "total_urls_of (get_metadata_by_date (sample_platform sample_extractor) ''sample'' ''token''
      ''2024-01-01'' ''2024-12-31'' ''filter:media'') = Some 2
   \<and> passing_count ''filter:media'' sample_items = 0
   \<and> passing_count ''image'' sample_items = 1
   \<and> passing_count ''video'' sample_items = 1
   \<and> passing_count ''gif'' sample_items = 0"
  by code_simp


section \<open>Failures and the caller\<close>

text \<open>
  Claim C1, amended. When the synthesized URL does not match the pattern of the
  extractor, either entry point raises \<^verbatim>\<open>ValueError\<close> to its caller: the check comes
  before the guarded block. When the URL matches, every failure that the guarded block
  of either entry point raises, and on which the classifier can read the response text,
  is returned as a dictionary with the single key \<^verbatim>\<open>error\<close>; in \<^verbatim>\<open>get_metadata\<close> the
  failure of an unbounded iteration whose stream ends by raising is one of them. In
  \<^verbatim>\<open>get_metadata_by_date\<close> a failure of the iteration does not leave the guarded block:
  once initialisation, the construction of the API object, the account lookup and the
  transformation of the user have succeeded, the call returns the success body, whose
  \<^verbatim>\<open>total_urls\<close> counts the media items of the stream, however the stream ends.
\<close>

theorem failures_become_error_bodies:
  "(\<not> timeline_url_ok pf ui tt \<longrightarrow>
      get_metadata pf ui tok tt bs pg mt rt
        = Inl (value_error (''Invalid URL for '' @ tt @ '': ''
                 @ timeline_url (parse_username ui) tt)))
   \<and> (timeline_url_ok pf ui tt \<longrightarrow>
        get_metadata_body pf (timeline_extractor pf ui tok tt bs rt) (parse_username ui) bs pg mt
          = Inl e \<longrightarrow>
        response_has_text e \<longrightarrow>
        (\<exists>m. get_metadata pf ui tok tt bs pg mt rt = Inr (ErrorBody m)))
   \<and> (timeline_url_ok pf ui tt \<longrightarrow>
        ex_initialize (timeline_extractor pf ui tok tt bs rt) = None \<longrightarrow>
        ex_api (timeline_extractor pf ui tok tt bs rt) = None \<longrightarrow>
        resolve_user (timeline_lookup (timeline_extractor pf ui tok tt bs rt) (parse_username ui))
          = Inr user \<longrightarrow>
        bs \<le> 0 \<longrightarrow>
        ex_end (timeline_extractor pf ui tok tt bs rt) = Some e \<longrightarrow>
        response_has_text e \<longrightarrow>
        (\<exists>m. get_metadata pf ui tok tt bs pg mt rt = Inr (ErrorBody m)))
   \<and> (\<not> search_url_ok pf ui ds de mf \<longrightarrow>
        get_metadata_by_date pf ui tok ds de mf
          = Inl (value_error (''Invalid search URL: '' @ search_url_of ui ds de mf)))
   \<and> (search_url_ok pf ui ds de mf \<longrightarrow>
        get_metadata_by_date_body pf (search_extractor pf ui tok ds de mf) (parse_username ui)
          (search_query (parse_username ui) ds de mf) ds de = Inl e' \<longrightarrow>
        response_has_text e' \<longrightarrow>
        (\<exists>m. get_metadata_by_date pf ui tok ds de mf = Inr (ErrorBody m)))
   \<and> (search_url_ok pf ui ds de mf \<longrightarrow>
        ex_initialize (search_extractor pf ui tok ds de mf) = None \<longrightarrow>
        ex_api (search_extractor pf ui tok ds de mf) = None \<longrightarrow>
        resolve_user (ex_user_by_screen_name (search_extractor pf ui tok ds de mf)
          (parse_username ui)) = Inr user' \<longrightarrow>
        ex_transform_user (search_extractor pf ui tok ds de mf) user' = Inr transformed \<longrightarrow>
        (\<exists>body. get_metadata_by_date pf ui tok ds de mf = Inr (SearchBody body)
           \<and> so_total_urls body
               = length (filter is_media_item (ex_items (search_extractor pf ui tok ds de mf)))))"
proof -
  let ?ex = "timeline_extractor pf ui tok tt bs rt"
  have stream: "get_metadata_body pf ?ex (parse_username ui) bs pg mt = Inl e"
    if "ex_initialize ?ex = None" and "ex_api ?ex = None"
      and "resolve_user (timeline_lookup ?ex (parse_username ui)) = Inr user"
      and "bs \<le> 0" and "ex_end ?ex = Some e"
  proof -
    from that(4) have "skip_phase ?ex bs pg = Inr (Iterator (ex_items ?ex) (ex_end ?ex) 0, 0)"
      by (simp add: skip_phase_iter)
    moreover from that(4,5)
    have "fetch_loop pf mt (items_to_fetch bs) (Iterator (ex_items ?ex) (ex_end ?ex) 0)
        initial_state = Inl e"
      by (simp add: items_to_fetch_def fetch_loop_unbounded)
    ultimately show ?thesis
      using that(1,2,3) by (simp add: get_metadata_body_def)
  qed
  let ?sx = "search_extractor pf ui tok ds de mf"
  have search: "\<exists>body. get_metadata_by_date pf ui tok ds de mf = Inr (SearchBody body)
      \<and> so_total_urls body = length (filter is_media_item (ex_items ?sx))"
    if "search_url_ok pf ui ds de mf" and "ex_initialize ?sx = None" and "ex_api ?sx = None"
      and "resolve_user (ex_user_by_screen_name ?sx (parse_username ui)) = Inr user'"
      and "ex_transform_user ?sx user' = Inr transformed"
    using that
    by (simp add: get_metadata_by_date_unfold get_metadata_by_date_body_def Let_def py_iter_def
        search_loop_counts)
  show ?thesis
    using stream search
    by (simp add: get_metadata_unfold get_metadata_by_date_unfold handle_failure_returns)
qed

theorem failures_become_error_bodies_witness:
  "get_metadata (sample_platform failing_extractor) ''sample'' ''token'' ''likes'' 0 0 ''all'' False
     = Inl (value_error ''Invalid URL for likes: https://x.com/sample/likes'')
   \<and> (\<exists>m. get_metadata (sample_platform failing_extractor) ''sample'' ''token'' ''media'' 0 0
         ''all'' False = Inr (ErrorBody m))
   \<and> (\<exists>m. get_metadata (sample_platform interrupted_extractor) ''sample'' ''token'' ''media'' 0 0
         ''all'' False = Inr (ErrorBody m))
   \<and> get_metadata_by_date rejecting_platform ''sample'' ''token'' ''2024-01-01'' ''2024-12-31''
       ''filter:media''
     = Inl (value_error
         ''Invalid search URL: https://x.com/search?q=from:sample since:2024-01-01 until:2024-12-31 filter:media'')
   \<and> (\<exists>m. get_metadata_by_date (sample_platform failing_extractor) ''sample'' ''token''
         ''2024-01-01'' ''2024-12-31'' ''filter:media'' = Inr (ErrorBody m))
   \<and> (\<exists>body. get_metadata_by_date (sample_platform interrupted_extractor) ''sample'' ''token''
         ''2024-01-01'' ''2024-12-31'' ''filter:media'' = Inr (SearchBody body)
         \<and> so_total_urls body = 2)"
proof -
  let ?pf = "sample_platform failing_extractor"
  let ?pi = "sample_platform interrupted_extractor"
  have a: "\<not> timeline_url_ok ?pf ''sample'' ''likes''"
    by code_simp
  have u: "timeline_url (parse_username ''sample'') ''likes'' = ''https://x.com/sample/likes''"
    by code_simp
  have b: "timeline_url_ok ?pf ''sample'' ''media''"
    by code_simp
  have c: "get_metadata_body ?pf (timeline_extractor ?pf ''sample'' ''token'' ''media'' 0 False)
      (parse_username ''sample'') 0 0 ''all'' = Inl auth_failure"
    by (simp add: get_metadata_body_def timeline_extractor_def sample_platform_def
        failing_extractor_def)
  have d: "response_has_text auth_failure"
    by code_simp
  have e: "\<not> search_url_ok rejecting_platform ''sample'' ''2024-01-01'' ''2024-12-31''
      ''filter:media''"
    by (simp add: search_url_ok_def rejecting_platform_def)
  have v: "search_url_of ''sample'' ''2024-01-01'' ''2024-12-31'' ''filter:media''
      = ''https://x.com/search?q=from:sample since:2024-01-01 until:2024-12-31 filter:media''"
    by code_simp
  have f: "search_url_ok ?pf ''sample'' ''2024-01-01'' ''2024-12-31'' ''filter:media''"
    by code_simp
  have g: "get_metadata_by_date_body ?pf
      (search_extractor ?pf ''sample'' ''token'' ''2024-01-01'' ''2024-12-31'' ''filter:media'')
      (parse_username ''sample'')
      (search_query (parse_username ''sample'') ''2024-01-01'' ''2024-12-31'' ''filter:media'')
      ''2024-01-01'' ''2024-12-31'' = Inl auth_failure"
    by (simp add: get_metadata_by_date_body_def search_extractor_def sample_platform_def
        failing_extractor_def)
  have ti: "timeline_extractor ?pi ''sample'' ''token'' ''media'' 0 False = interrupted_extractor"
    and si: "search_extractor ?pi ''sample'' ''token'' ''2024-01-01'' ''2024-12-31''
      ''filter:media'' = interrupted_extractor"
    by (simp_all add: timeline_extractor_def search_extractor_def sample_platform_def)
  have h: "timeline_url_ok ?pi ''sample'' ''media''"
    "search_url_ok ?pi ''sample'' ''2024-01-01'' ''2024-12-31'' ''filter:media''"
    by code_simp+
  have i: "ex_initialize interrupted_extractor = None" "ex_api interrupted_extractor = None"
    "ex_end interrupted_extractor = Some auth_failure"
    "ex_transform_user interrupted_extractor sample_raw_user = Inr sample_user"
    by (simp_all add: interrupted_extractor_def sample_extractor_def)
  have j: "resolve_user (timeline_lookup interrupted_extractor (parse_username ''sample''))
      = Inr sample_raw_user"
    "resolve_user (ex_user_by_screen_name interrupted_extractor (parse_username ''sample''))
      = Inr sample_raw_user"
    by code_simp+
  have k: "length (filter is_media_item (ex_items interrupted_extractor)) = 2"
    by code_simp
  from failures_become_error_bodies [where pf = ?pf and ui = "''sample''" and tt = "''likes''"
      and tok = "''token''" and bs = 0 and pg = 0 and mt = "''all''" and rt = False] a u
  have 1: "get_metadata ?pf ''sample'' ''token'' ''likes'' 0 0 ''all'' False
      = Inl (value_error ''Invalid URL for likes: https://x.com/sample/likes'')"
    by simp
  from failures_become_error_bodies [where pf = ?pf and ui = "''sample''" and tt = "''media''"
      and tok = "''token''" and bs = 0 and pg = 0 and mt = "''all''" and rt = False
      and e = auth_failure and ds = "''2024-01-01''" and de = "''2024-12-31''"
      and mf = "''filter:media''" and e' = auth_failure] b c d f g
  have 2: "\<exists>m. get_metadata ?pf ''sample'' ''token'' ''media'' 0 0 ''all'' False
      = Inr (ErrorBody m)"
    and 5: "\<exists>m. get_metadata_by_date ?pf ''sample'' ''token'' ''2024-01-01'' ''2024-12-31''
      ''filter:media'' = Inr (ErrorBody m)"
    by simp_all
  from failures_become_error_bodies [where pf = ?pi and ui = "''sample''" and tt = "''media''"
      and tok = "''token''" and bs = 0 and pg = 0 and mt = "''all''" and rt = False
      and e = auth_failure and user = sample_raw_user and ds = "''2024-01-01''"
      and de = "''2024-12-31''" and mf = "''filter:media''" and user' = sample_raw_user
      and transformed = sample_user] h i j d k
  have 3: "\<exists>m. get_metadata ?pi ''sample'' ''token'' ''media'' 0 0 ''all'' False
      = Inr (ErrorBody m)"
    and 6: "\<exists>body. get_metadata_by_date ?pi ''sample'' ''token'' ''2024-01-01'' ''2024-12-31''
      ''filter:media'' = Inr (SearchBody body) \<and> so_total_urls body = 2"
    by (simp_all add: ti si)
  from failures_become_error_bodies [where pf = rejecting_platform and ui = "''sample''"
      and tok = "''token''" and ds = "''2024-01-01''" and de = "''2024-12-31''"
      and mf = "''filter:media''"] e v
  have 4: "get_metadata_by_date rejecting_platform ''sample'' ''token'' ''2024-01-01''
      ''2024-12-31'' ''filter:media''
      = Inl (value_error
         ''Invalid search URL: https://x.com/search?q=from:sample since:2024-01-01 until:2024-12-31 filter:media'')"
    by simp
  from 1 2 3 4 5 6 show ?thesis by simp
qed

text \<open>Against C1 as stated: an unknown timeline type gives a URL the timeline pattern
  rejects, and the call raises instead of returning an error dictionary.\<close>

theorem invalid_url_is_raised:
  "get_metadata (sample_platform sample_extractor) ''sample'' ''token'' ''likes'' 0 0 ''all'' False
     = Inl (value_error ''Invalid URL for likes: https://x.com/sample/likes'')"
  by code_simp


section \<open>The resolver on handles\<close>

lemma of_char_lower_char:
  "(of_char (lower_char c) :: nat) =
     (if 65 \<le> (of_char c :: nat) \<and> (of_char c :: nat) \<le> 90 then of_char c + 32 else of_char c)"
  by (simp add: lower_char_def Let_def)

lemma char_eq_code: "(c = d) = ((of_char c :: nat) = of_char d)"
  by simp

lemma lower_char_slash: "lower_char c = CHR ''/'' \<longleftrightarrow> c = CHR ''/''"
  by (simp add: char_eq_code of_char_lower_char del: of_char_eq_iff)

lemma lower_char_at: "lower_char c = CHR ''@'' \<longleftrightarrow> c = CHR ''@''"
  by (simp add: char_eq_code of_char_lower_char del: of_char_eq_iff)

lemma lower_char_idem: "lower_char (lower_char c) = lower_char c"
  by (simp add: char_eq_code of_char_lower_char del: of_char_eq_iff)

lemma is_space_lower: "is_space c \<Longrightarrow> lower_char c = c"
  by (auto simp add: char_eq_code of_char_lower_char is_space_def Let_def simp del: of_char_eq_iff)

lemma py_lower_append: "py_lower (a @ b) = py_lower a @ py_lower b"
  by (simp add: py_lower_def)

lemma py_lower_idem: "py_lower (py_lower h) = py_lower h"
  by (simp add: py_lower_def lower_char_idem)

lemma literals_lower:
  "py_lower ''https://'' = ''https://''" "py_lower ''http://'' = ''http://''"
  "py_lower ''www.'' = ''www.''" "py_lower ''x.com'' = ''x.com''"
  "py_lower ''twitter.com'' = ''twitter.com''" "py_lower ''/'' = ''/''" "py_lower ''/@'' = ''/@''"
  by code_simp+

lemma ci_prefix_append:
  assumes "py_lower a = py_lower lit"
  shows "ci_prefix lit (a @ r) = [r]"
proof -
  from assms have "length (py_lower a) = length (py_lower lit)" by simp
  then have "length a = length lit" by (simp add: py_lower_def)
  with assms show ?thesis by (simp add: ci_prefix_def)
qed

lemma ci_prefix_mismatch:
  assumes "lit \<noteq> []" and "s = [] \<or> lower_char (hd s) \<noteq> lower_char (hd lit)"
  shows "ci_prefix lit s = []"
proof (cases s)
  case Nil
  with assms(1) show ?thesis by (simp add: ci_prefix_def)
next
  case (Cons c cs)
  from assms(1) obtain l ls where lit: "lit = l # ls" by (cases lit) auto
  with Cons assms(2) show ?thesis by (simp add: ci_prefix_def py_lower_def)
qed

lemma ci_prefix_neq:
  "py_lower (take (length lit) s) \<noteq> py_lower lit \<Longrightarrow> ci_prefix lit s = []"
  by (simp add: ci_prefix_def)

lemma ci_prefix_subset: "r \<in> set (ci_prefix lit s) \<Longrightarrow> set r \<subseteq> set s"
  by (auto simp add: ci_prefix_def dest: in_set_dropD split: if_splits)

lemma url_prefix_rests_subset: "r \<in> set (url_prefix_rests s) \<Longrightarrow> set r \<subseteq> set s"
  by (fastforce simp add: url_prefix_rests_def List.bind_def opt_scheme_def opt_www_def
      alt_domain_def dest: ci_prefix_subset)

lemma ci_prefix_no_slash:
  assumes "CHR ''/'' \<notin> set r" and "sep = ''/'' \<or> sep = ''/@''"
  shows "ci_prefix sep r = []"
proof (rule ci_prefix_mismatch)
  show "sep \<noteq> []" using assms(2) by auto
  have "lower_char (hd sep) = CHR ''/''"
    using assms(2) by (auto simp add: lower_char_slash)
  moreover have "r \<noteq> [] \<Longrightarrow> lower_char (hd r) \<noteq> CHR ''/''"
    using assms(1) by (cases r) (auto simp add: lower_char_slash)
  ultimately show "r = [] \<or> lower_char (hd r) \<noteq> lower_char (hd sep)"
    by auto
qed

lemma match_url_no_slash:
  assumes "CHR ''/'' \<notin> set s" and "sep = ''/'' \<or> sep = ''/@''"
  shows "match_url sep s = None"
proof -
  have "\<And>r. r \<in> set (url_prefix_rests s) \<Longrightarrow> ci_prefix sep r = []"
    using assms url_prefix_rests_subset ci_prefix_no_slash by blast
  then have "List.bind (url_prefix_rests s) (\<lambda>r. List.bind (ci_prefix sep r) segment) = []"
    by (simp add: List.bind_def)
  then show ?thesis by (simp add: match_url_def)
qed

lemma opt_scheme_head:
  assumes "py_lower sch = [] \<or> py_lower sch = ''http://'' \<or> py_lower sch = ''https://''"
    and "X \<noteq> []" and "lower_char (hd X) \<noteq> CHR ''h''"
  shows "\<exists>ys. opt_scheme (sch @ X) = X # ys"
proof -
  consider "sch = []" | "py_lower sch = ''http://''" | "py_lower sch = ''https://''"
    using assms(1) by (auto simp add: py_lower_def)
  then show ?thesis
  proof cases
    case 1
    have "ci_prefix ''https://'' X = []" "ci_prefix ''http://'' X = []"
      using assms(2,3) by (auto intro!: ci_prefix_mismatch simp add: lower_char_def)
    with 1 show ?thesis by (simp add: opt_scheme_def)
  next
    case 2
    then have len: "length sch = 7"
      by (auto simp add: py_lower_def)
    have "py_lower (take (length ''https://'') (sch @ X)) \<noteq> py_lower ''https://''"
    proof
      assume a: "py_lower (take (length ''https://'') (sch @ X)) = py_lower ''https://''"
      have t: "take (length ''https://'') (sch @ X) = sch @ take 1 X"
        using len by simp
      from a have "py_lower (sch @ take 1 X) = py_lower ''https://''"
        by (simp only: t)
      then have "py_lower sch @ py_lower (take 1 X) = ''https://''"
        by (simp only: py_lower_append literals_lower)
      then have "''http://'' @ py_lower (take 1 X) = ''https://''"
        by (simp only: 2)
      then show False by simp
    qed
    then have "ci_prefix ''https://'' (sch @ X) = []"
      by (rule ci_prefix_neq)
    moreover have "ci_prefix ''http://'' (sch @ X) = [X]"
      using 2 by (simp add: ci_prefix_append literals_lower)
    ultimately show ?thesis by (simp add: opt_scheme_def)
  next
    case 3
    then have "ci_prefix ''https://'' (sch @ X) = [X]"
      by (simp add: ci_prefix_append literals_lower)
    then show ?thesis by (simp add: opt_scheme_def)
  qed
qed

lemma opt_www_head:
  assumes "py_lower w = [] \<or> py_lower w = ''www.''"
    and "Y \<noteq> []" and "lower_char (hd Y) \<noteq> CHR ''w''"
  shows "\<exists>ys. opt_www (w @ Y) = Y # ys"
proof -
  consider "w = []" | "py_lower w = ''www.''"
    using assms(1) by (auto simp add: py_lower_def)
  then show ?thesis
  proof cases
    case 1
    have "ci_prefix ''www.'' Y = []"
      using assms(2,3) by (auto intro!: ci_prefix_mismatch simp add: lower_char_def)
    with 1 show ?thesis by (simp add: opt_www_def)
  next
    case 2
    then have "ci_prefix ''www.'' (w @ Y) = [Y]"
      by (simp add: ci_prefix_append literals_lower)
    then show ?thesis by (simp add: opt_www_def)
  qed
qed

lemma domain_first:
  assumes "py_lower dm = ''x.com'' \<or> py_lower dm = ''twitter.com''"
  shows "dm \<noteq> [] \<and> (lower_char (hd dm) = CHR ''x'' \<or> lower_char (hd dm) = CHR ''t'')"
  using assms by (auto simp add: py_lower_def)

lemma alt_domain_head:
  assumes "py_lower dm = ''x.com'' \<or> py_lower dm = ''twitter.com''"
  shows "\<exists>ys. alt_domain (dm @ r) = r # ys"
proof -
  consider "py_lower dm = ''x.com''" | "py_lower dm = ''twitter.com''"
    using assms by auto
  then show ?thesis
  proof cases
    case 1
    then have "ci_prefix ''x.com'' (dm @ r) = [r]"
      by (simp add: ci_prefix_append literals_lower)
    then show ?thesis by (simp add: alt_domain_def)
  next
    case 2
    then have "dm \<noteq> []" and "lower_char (hd dm) = CHR ''t''"
      by (auto simp add: py_lower_def)
    then have "ci_prefix ''x.com'' (dm @ r) = []"
      by (auto intro!: ci_prefix_mismatch simp add: lower_char_def)
    moreover have "ci_prefix ''twitter.com'' (dm @ r) = [r]"
      using 2 by (simp add: ci_prefix_append literals_lower)
    ultimately show ?thesis by (simp add: alt_domain_def)
  qed
qed

lemma url_prefix_rests_head:
  assumes "py_lower sch = [] \<or> py_lower sch = ''http://'' \<or> py_lower sch = ''https://''"
    and "py_lower w = [] \<or> py_lower w = ''www.''"
    and "py_lower dm = ''x.com'' \<or> py_lower dm = ''twitter.com''"
  shows "\<exists>ys. url_prefix_rests (sch @ w @ dm @ r) = r # ys"
proof -
  from domain_first [OF assms(3)] have d: "dm \<noteq> []"
    and dh: "lower_char (hd dm) = CHR ''x'' \<or> lower_char (hd dm) = CHR ''t''"
    by simp_all
  have y: "dm @ r \<noteq> []" "lower_char (hd (dm @ r)) \<noteq> CHR ''w''"
    "lower_char (hd (dm @ r)) \<noteq> CHR ''h''"
    using d dh by auto
  have x: "w @ dm @ r \<noteq> []" "lower_char (hd (w @ dm @ r)) \<noteq> CHR ''h''"
    using assms(2) d y by (auto simp add: py_lower_def hd_append)
  from opt_scheme_head [OF assms(1) x] obtain ys1 where
    s1: "opt_scheme (sch @ w @ dm @ r) = (w @ dm @ r) # ys1" by blast
  from opt_www_head [OF assms(2) y(1,2)] obtain ys2 where
    s2: "opt_www (w @ dm @ r) = (dm @ r) # ys2" by blast
  from alt_domain_head [OF assms(3)] obtain ys3 where
    s3: "alt_domain (dm @ r) = r # ys3" by blast
  show ?thesis
    by (simp add: url_prefix_rests_def s1 s2 s3)
qed

lemma segment_handle:
  assumes "g \<noteq> []" and "\<forall>c\<in>set g. \<not> is_delim c" and "t = [] \<or> is_delim (hd t)"
  shows "segment (g @ t) = [g]"
proof -
  have "takeWhile (\<lambda>c. \<not> is_delim c) t = []"
    using assms(3) by (cases t) auto
  then have "takeWhile (\<lambda>c. \<not> is_delim c) (g @ t) = g"
    using assms(2) by (simp add: takeWhile_append2)
  with assms(1) show ?thesis by (simp add: segment_def)
qed

lemma match_url_profile:
  assumes "py_lower sch = [] \<or> py_lower sch = ''http://'' \<or> py_lower sch = ''https://''"
    and "py_lower w = [] \<or> py_lower w = ''www.''"
    and "py_lower dm = ''x.com'' \<or> py_lower dm = ''twitter.com''"
    and "g \<noteq> []" and "\<forall>c\<in>set g. \<not> is_delim c" and "t = [] \<or> is_delim (hd t)"
  shows "match_url ''/'' (sch @ w @ dm @ ''/'' @ g @ t) = Some g"
proof -
  from url_prefix_rests_head [OF assms(1,2,3)] obtain ys where
    "url_prefix_rests (sch @ w @ dm @ ''/'' @ g @ t) = (''/'' @ g @ t) # ys" by blast
  moreover have "ci_prefix ''/'' (''/'' @ g @ t) = [g @ t]"
    by (rule ci_prefix_append) simp
  ultimately show ?thesis
    using segment_handle [OF assms(4,5,6)] by (simp add: match_url_def)
qed

lemma is_delim_code:
  "is_delim c \<longleftrightarrow> (of_char c :: nat) = 47 \<or> (of_char c :: nat) = 63 \<or> (of_char c :: nat) = 35"
  by (simp add: is_delim_def char_eq_code del: of_char_eq_iff)

lemma handle_char_variant:
  assumes "lower_char c' = lower_char c" and "handle_char c"
  shows "handle_char c'"
proof -
  from assms(1) have "(of_char (lower_char c') :: nat) = of_char (lower_char c)"
    by simp
  with assms(2) show ?thesis
    by (auto simp add: of_char_lower_char handle_char_def is_ascii_def is_space_def
        is_delim_code Let_def split: if_splits)
qed

lemma variant_all:
  "map lower_char v = map lower_char h \<Longrightarrow> list_all handle_char h \<Longrightarrow> list_all handle_char v"
  by (induction v arbitrary: h) (auto simp add: Cons_eq_map_conv handle_char_variant)

lemma is_handle_variant:
  assumes "is_handle h" and "py_lower v = py_lower h"
  shows "is_handle v"
proof -
  from assms(2) have len: "length v = length h"
    unfolding py_lower_def by (rule map_eq_imp_length_eq)
  with assms(1) have ne: "v \<noteq> []" and hne: "h \<noteq> []"
    by (auto simp add: is_handle_def)
  from assms have chars: "list_all handle_char v"
    by (auto simp add: is_handle_def py_lower_def intro: variant_all)
  from ne hne assms(2) have "lower_char (hd v) = lower_char (hd h)"
    by (cases v; cases h) (simp_all add: py_lower_def)
  with assms(1) have "hd v \<noteq> CHR ''@''"
    by (metis is_handle_def lower_char_at)
  with ne chars assms show ?thesis
    by (simp add: is_handle_def)
qed

lemma py_strip_id:
  assumes "xs \<noteq> []" and "\<not> is_space (hd xs)" and "\<not> is_space (last xs)"
  shows "py_strip xs = xs"
proof -
  from assms(1,2) have a: "dropWhile is_space xs = xs"
    by (cases xs) auto
  from assms(1,3) have "dropWhile is_space (rev xs) = rev xs"
    by (cases "rev xs") (auto simp add: hd_rev)
  with a show ?thesis by (simp add: py_strip_def)
qed

lemma handle_facts:
  assumes "is_handle v"
  shows "v \<noteq> []" and "\<forall>c\<in>set v. \<not> is_delim c" and "CHR ''/'' \<notin> set v"
    and "\<not> is_space (hd v)" and "\<not> is_space (last v)" and "py_lstrip CHR ''@'' v = v"
    and "\<not> startswith v ''id:''"
proof -
  from assms show ne: "v \<noteq> []" by (simp add: is_handle_def)
  from assms have all: "\<forall>c\<in>set v. handle_char c"
    by (simp add: is_handle_def list_all_iff)
  then show nd: "\<forall>c\<in>set v. \<not> is_delim c" by (simp add: handle_char_def)
  then show "CHR ''/'' \<notin> set v" by (auto simp add: is_delim_def)
  from ne all show "\<not> is_space (hd v)" "\<not> is_space (last v)"
    by (auto simp add: handle_char_def)
  from assms ne show "py_lstrip CHR ''@'' v = v"
    by (cases v) (auto simp add: py_lstrip_def is_handle_def)
  show "\<not> startswith v ''id:''"
  proof
    assume "startswith v ''id:''"
    then have a: "take (length ''id:'') v = ''id:''"
      by (simp only: startswith_def)
    have "take (length ''id:'') (py_lower v) = py_lower (take (length ''id:'') v)"
      by (simp only: py_lower_def take_map)
    also have "\<dots> = py_lower ''id:''"
      by (simp only: a)
    also have "\<dots> = ''id:''"
      by code_simp
    finally have "startswith (py_lower v) ''id:''"
      by (simp only: startswith_def)
    with assms show False by (simp add: is_handle_def)
  qed
qed

lemma parse_username_plain:
  assumes "is_handle v"
  shows "parse_username v = py_lower v"
proof -
  note f = handle_facts [OF assms]
  have "py_strip v = v" using f by (simp add: py_strip_id)
  moreover have "match_url ''/'' v = None" "match_url ''/@'' v = None"
    using f(3) by (simp_all add: match_url_no_slash)
  ultimately show ?thesis
    using f(6,7) by (simp add: parse_username_def)
qed

lemma parse_username_at:
  assumes "is_handle v"
  shows "parse_username (CHR ''@'' # v) = py_lower v"
proof -
  note f = handle_facts [OF assms]
  have sp: "\<not> is_space (CHR ''@'')" by code_simp
  have "py_strip (CHR ''@'' # v) = CHR ''@'' # v"
    using f(1,5) sp by (simp add: py_strip_id)
  moreover have "match_url ''/'' (CHR ''@'' # v) = None" "match_url ''/@'' (CHR ''@'' # v) = None"
    using f(3) by (simp_all add: match_url_no_slash)
  moreover have "\<not> startswith (CHR ''@'' # v) ''id:''"
    by (simp add: startswith_def)
  moreover have "py_lstrip CHR ''@'' (CHR ''@'' # v) = v"
    using f(6) by (simp add: py_lstrip_def)
  ultimately show ?thesis
    by (simp add: parse_username_def)
qed

lemma url_first:
  assumes "py_lower sch = [] \<or> py_lower sch = ''http://'' \<or> py_lower sch = ''https://''"
    and "py_lower w = [] \<or> py_lower w = ''www.''"
    and "py_lower dm = ''x.com'' \<or> py_lower dm = ''twitter.com''"
  shows "lower_char (hd (sch @ w @ dm @ r)) \<in> {CHR ''h'', CHR ''w'', CHR ''x'', CHR ''t''}"
  using assms by (auto simp add: py_lower_def hd_append)

lemma parse_username_url:
  assumes "is_handle v"
    and "py_lower sch = [] \<or> py_lower sch = ''http://'' \<or> py_lower sch = ''https://''"
    and "py_lower w = [] \<or> py_lower w = ''www.''"
    and "py_lower dm = ''x.com'' \<or> py_lower dm = ''twitter.com''"
    and "url_tail t"
  shows "parse_username (sch @ w @ dm @ ''/'' @ v @ t) = py_lower v"
proof -
  let ?U = "sch @ w @ dm @ ''/'' @ v @ t"
  note f = handle_facts [OF assms(1)]
  from url_first [OF assms(2,3,4)]
  have first: "lower_char (hd ?U) \<in> {CHR ''h'', CHR ''w'', CHR ''x'', CHR ''t''}" .
  have ne: "?U \<noteq> []" by simp
  have nsp: "\<not> is_space (CHR ''h'')" "\<not> is_space (CHR ''w'')" "\<not> is_space (CHR ''x'')"
    "\<not> is_space (CHR ''t'')"
    by code_simp+
  have li: "lower_char (CHR ''i'') = CHR ''i''" by code_simp
  have "\<not> is_space (hd ?U)"
  proof
    assume "is_space (hd ?U)"
    with is_space_lower [of "hd ?U"] first nsp show False by auto
  qed
  moreover have "\<not> is_space (last ?U)"
    using assms(5) f(1,5) by (cases "t = []") (auto simp add: url_tail_def)
  ultimately have strip: "py_strip ?U = ?U"
    using ne by (rule_tac py_strip_id) 
  have "\<not> startswith ?U ''id:''"
  proof
    assume "startswith ?U ''id:''"
    then have "take (length ''id:'') ?U = ''id:''"
      by (simp only: startswith_def)
    then have "hd (take (length ''id:'') ?U) = CHR ''i''"
      by simp
    moreover have "hd (take (length ''id:'') ?U) = hd ?U"
      by (rule hd_take) simp
    ultimately have "hd ?U = CHR ''i''"
      by simp
    with first li show False by simp
  qed
  moreover have "match_url ''/'' ?U = Some v"
    using assms(5) f(1,2) by (intro match_url_profile assms(2,3,4)) (auto simp add: url_tail_def)
  ultimately show ?thesis
    using strip f(6) by (simp add: parse_username_def)
qed


text \<open>
  Claim C6. For every handle \<^verbatim>\<open>h\<close> and every spelling \<^verbatim>\<open>v\<close> of it in upper, lower or
  mixed case, the resolver maps \<^verbatim>\<open>v\<close>, \<^verbatim>\<open>@v\<close> and every profile URL of \<^verbatim>\<open>v\<close> (scheme
  \<^verbatim>\<open>http://\<close> or \<^verbatim>\<open>https://\<close> or none, optional \<^verbatim>\<open>www.\<close>, domain \<^verbatim>\<open>x.com\<close> or
  \<^verbatim>\<open>twitter.com\<close>, all in any case, and nothing or a path, query or fragment such as
  \<^verbatim>\<open>/status/1\<close> after the handle) to the same string, the all-lowercase \<^verbatim>\<open>h\<close>.
\<close>

theorem parse_username_canonical:
  assumes "is_handle h" and "py_lower v = py_lower h"
    and "py_lower sch = [] \<or> py_lower sch = ''http://'' \<or> py_lower sch = ''https://''"
    and "py_lower w = [] \<or> py_lower w = ''www.''"
    and "py_lower dm = ''x.com'' \<or> py_lower dm = ''twitter.com''"
    and "url_tail t"
  shows "parse_username v = py_lower h
    \<and> parse_username (CHR ''@'' # v) = py_lower h
    \<and> parse_username (sch @ w @ dm @ ''/'' @ v @ t) = py_lower h
    \<and> py_lower (py_lower h) = py_lower h"
proof -
  from is_handle_variant [OF assms(1,2)] have hv: "is_handle v" .
  show ?thesis
    using parse_username_plain [OF hv] parse_username_at [OF hv]
      parse_username_url [OF hv assms(3,4,5,6)] assms(2)
    by (simp add: py_lower_idem)
qed

theorem parse_username_canonical_witness:
  "parse_username ''Handle'' = ''handle''
   \<and> parse_username ''HANDLE'' = ''handle''
   \<and> parse_username ''@Handle'' = ''handle''
   \<and> parse_username ''https://x.com/Handle'' = ''handle''
   \<and> parse_username ''https://twitter.com/Handle/status/1'' = ''handle''
   \<and> parse_username ''HTTP://WWW.X.COM/handle?lang=en'' = ''handle''"
proof -
  have h: "is_handle ''handle''"
    by code_simp
  have l: "py_lower ''handle'' = ''handle''"
    by code_simp
  have v: "py_lower ''Handle'' = py_lower ''handle''" "py_lower ''HANDLE'' = py_lower ''handle''"
    "py_lower ''handle'' = py_lower ''handle''"
    by code_simp+
  have s: "py_lower ''https://'' = [] \<or> py_lower ''https://'' = ''http://''
      \<or> py_lower ''https://'' = ''https://''"
    "py_lower ''HTTP://'' = [] \<or> py_lower ''HTTP://'' = ''http://''
      \<or> py_lower ''HTTP://'' = ''https://''"
    by code_simp+
  have w: "py_lower [] = [] \<or> py_lower [] = ''www.''"
    "py_lower ''WWW.'' = [] \<or> py_lower ''WWW.'' = ''www.''"
    by code_simp+
  have d: "py_lower ''x.com'' = ''x.com'' \<or> py_lower ''x.com'' = ''twitter.com''"
    "py_lower ''twitter.com'' = ''x.com'' \<or> py_lower ''twitter.com'' = ''twitter.com''"
    "py_lower ''X.COM'' = ''x.com'' \<or> py_lower ''X.COM'' = ''twitter.com''"
    by code_simp+
  have t: "url_tail []" "url_tail ''/status/1''" "url_tail ''?lang=en''"
    by code_simp+
  from parse_username_canonical [OF h v(1) s(1) w(1) d(1) t(1)] l
  have 1: "parse_username ''Handle'' = ''handle''" "parse_username ''@Handle'' = ''handle''"
    "parse_username ''https://x.com/Handle'' = ''handle''"
    by simp_all
  from parse_username_canonical [OF h v(2) s(1) w(1) d(2) t(2)] l
  have 2: "parse_username ''HANDLE'' = ''handle''" by simp
  from parse_username_canonical [OF h v(1) s(1) w(1) d(2) t(2)] l
  have 3: "parse_username ''https://twitter.com/Handle/status/1'' = ''handle''" by simp
  from parse_username_canonical [OF h v(3) s(2) w(2) d(3) t(3)] l
  have 4: "parse_username ''HTTP://WWW.X.COM/handle?lang=en'' = ''handle''" by simp
  from 1 2 3 4 show ?thesis by simp
qed


end
